theory Spec2Isabelle
  imports Main
begin

section \<open>geotif2envi: batch conversion of GeoTIFF files to ENVI format\<close>

text \<open>
  A shallow embedding of \<^verbatim>\<open>geotif2envi.py\<close>. Python strings are modelled as
  \<^typ>\<open>string\<close>, a character being a code point below 256; in that range the
  decimal digits that \<^verbatim>\<open>\d\<close> matches are exactly \<open>0\<close> to \<open>9\<close>. Exceptions are
  values of the type \<open>error\<close>; a function that can raise returns \<open>error + 'a\<close>.
  The file system and the GDAL library are an explicit \<open>world\<close> that every
  effectful function takes and returns.
\<close>

subsection \<open>Errors\<close>

datatype error =
    DateFormatNotFound string
      \<comment> \<open>\<^verbatim>\<open>ValueError("Date format not found in filename: ...")\<close>\<close>
  | InvalidDateValue string
      \<comment> \<open>the \<^verbatim>\<open>ValueError\<close> of \<^verbatim>\<open>datetime.strptime\<close>\<close>
  | UnsupportedPixelType string
      \<comment> \<open>\<^verbatim>\<open>ValueError("Unsupported data type: ...")\<close>\<close>
  | SourceOpenFailure string
      \<comment> \<open>\<^verbatim>\<open>FileNotFoundError("Unable to open GeoTIFF file: ...")\<close>\<close>
  | DriverUnavailable
      \<comment> \<open>\<^verbatim>\<open>RuntimeError("ENVI driver not available")\<close>\<close>
  | DestinationCreateFailure string
      \<comment> \<open>\<^verbatim>\<open>RuntimeError("Unable to create ENVI file: ...")\<close>\<close>
  | MissingInputList string
      \<comment> \<open>the \<^verbatim>\<open>FileNotFoundError\<close> of \<^verbatim>\<open>open(file_path, 'r')\<close>\<close>
  | InputListUnreadable string
      \<comment> \<open>any other exception of reading the list file\<close>
  | ManifestWriteFailure string
      \<comment> \<open>the \<^verbatim>\<open>OSError\<close> of \<^verbatim>\<open>open(file_path, 'w')\<close>\<close>
  | KeyError string
      \<comment> \<open>a key missing from \<^verbatim>\<open>dtype_map\<close>\<close>

subsection \<open>Decimal digits and numbers\<close>

definition isdigit :: "char \<Rightarrow> bool" where
  "isdigit c = (c \<in> set ''0123456789'')"

definition digit_value :: "char \<Rightarrow> nat" where
  "digit_value c = of_char c - 48"

text \<open>\<^verbatim>\<open>int(s)\<close> on a string of decimal digits.\<close>

definition int_of_digits :: "string \<Rightarrow> nat" where
  "int_of_digits s = foldl (\<lambda>n c. 10 * n + digit_value c) 0 s"

definition digit_char :: "nat \<Rightarrow> char" where
  "digit_char d = ''0123456789'' ! d"

text \<open>\<^verbatim>\<open>str(n)\<close> for a non-negative integer: no padding.\<close>

fun str_nat :: "nat \<Rightarrow> string" where
  "str_nat n = (if n < 10 then [digit_char n] else str_nat (n div 10) @ [digit_char (n mod 10)])"

declare str_nat.simps [simp del]

text \<open>The format specification \<^verbatim>\<open>03d\<close>: zero padding on the left up to width 3.\<close>

definition format_03d :: "nat \<Rightarrow> string" where
  "format_03d n = replicate (3 - length (str_nat n)) CHR ''0'' @ str_nat n"

subsection \<open>The regular expression and \<^verbatim>\<open>re.search\<close>\<close>

text \<open>
  \<^verbatim>\<open>main\<close> passes one pattern only, \<^verbatim>\<open>r'\d{8}'\<close>; the type of patterns has
  this one value.
\<close>

datatype regex = Digits8

definition date_format :: regex where
  "date_format = Digits8"

text \<open>\<^verbatim>\<open>re.match\<close> of the pattern at the start of the string.\<close>

fun re_match :: "regex \<Rightarrow> string \<Rightarrow> string option" where
  "re_match Digits8 s =
     (if 8 \<le> length s \<and> list_all isdigit (take 8 s) then Some (take 8 s) else None)"

text \<open>
  \<^verbatim>\<open>re.search\<close> tries the start positions from left to right and returns the
  first match (\<^verbatim>\<open>match.group()\<close>), or \<open>None\<close>.
\<close>

fun re_search :: "regex \<Rightarrow> string \<Rightarrow> string option" where
  "re_search r [] = re_match r []"
| "re_search r (c # cs) =
     (case re_match r (c # cs) of Some m \<Rightarrow> Some m | None \<Rightarrow> re_search r cs)"

subsection \<open>\<^verbatim>\<open>datetime.strptime(date_str, '%Y%m%d')\<close> and the day of the year\<close>

record date =
  year :: nat
  month :: nat
  day :: nat

definition is_leap :: "nat \<Rightarrow> bool" where
  "is_leap y = (y mod 4 = 0 \<and> (y mod 100 \<noteq> 0 \<or> y mod 400 = 0))"

definition days_in_month :: "nat \<Rightarrow> nat \<Rightarrow> nat" where
  "days_in_month y m =
     (if m = 2 \<and> is_leap y then 29
      else [31, 28, 31, 30, 31, 30, 31, 31, 30, 31, 30, 31] ! (m - 1))"

definition days_before_month :: "nat \<Rightarrow> nat \<Rightarrow> nat" where
  "days_before_month y m =
     [0, 31, 59, 90, 120, 151, 181, 212, 243, 273, 304, 334] ! (m - 1)
       + (if 2 < m \<and> is_leap y then 1 else 0)"

text \<open>
  On a string of eight digits, the directives take four, two and two digits (the month
  is \<open>01\<close> to \<open>12\<close>, the day \<open>01\<close> to \<open>31\<close>, or the whole string is not matched
  and \<^verbatim>\<open>ValueError\<close> is raised); the date must exist, with a year from 1 to 9999.
  Only the eight-digit strings that \<^verbatim>\<open>re.search\<close> returns reach this function.
\<close>

definition strptime_Ymd :: "string \<Rightarrow> error + date" where
  "strptime_Ymd s =
     (if length s = 8 \<and> list_all isdigit s then
        (let y = int_of_digits (take 4 s);
             m = int_of_digits (take 2 (drop 4 s));
             d = int_of_digits (drop 6 s)
         in if 1 \<le> m \<and> m \<le> 12 \<and> 1 \<le> d \<and> d \<le> 31 \<and> 1 \<le> y \<and> d \<le> days_in_month y m
            then Inr \<lparr>year = y, month = m, day = d\<rparr>
            else Inl (InvalidDateValue s))
      else Inl (InvalidDateValue s))"

text \<open>\<^verbatim>\<open>date_obj.timetuple().tm_yday\<close>\<close>

definition tm_yday :: "date \<Rightarrow> nat" where
  "tm_yday dt = days_before_month (year dt) (month dt) + day dt"

subsection \<open>\<^verbatim>\<open>extract_date_from_filename\<close>\<close>

definition extract_date_from_filename :: "string \<Rightarrow> regex \<Rightarrow> error + string" where
  "extract_date_from_filename filename fmt =
     (case re_search fmt filename of
        None \<Rightarrow> Inl (DateFormatNotFound filename)
      | Some date_str \<Rightarrow>
          (case strptime_Ymd date_str of
             Inl e \<Rightarrow> Inl e
           | Inr date_obj \<Rightarrow>
               (let doy = tm_yday date_obj
                in Inr (str_nat (year date_obj) @ format_03d doy))))"

subsection \<open>Paths: \<^verbatim>\<open>os.path\<close> on a POSIX system\<close>

text \<open>\<^verbatim>\<open>s.rfind(c)\<close>: the index of the last occurrence of \<open>c\<close>, or \<open>-1\<close>.\<close>

fun rfind :: "char \<Rightarrow> string \<Rightarrow> int" where
  "rfind c [] = - 1"
| "rfind c (x # xs) =
     (let r = rfind c xs in if 0 \<le> r then r + 1 else if x = c then 0 else - 1)"

text \<open>\<^verbatim>\<open>i = p.rfind('/') + 1; return p[i:]\<close>\<close>

definition os_path_basename :: "string \<Rightarrow> string" where
  "os_path_basename p = drop (nat (rfind CHR ''/'' p + 1)) p"

text \<open>
  The loop of \<^verbatim>\<open>genericpath._splitext\<close> over \<^verbatim>\<open>p[filenameIndex:dotIndex]\<close>: it
  returns the split at the first character that is not a dot, and falls through when
  there is none.
\<close>

fun has_non_dot :: "string \<Rightarrow> bool" where
  "has_non_dot [] = False"
| "has_non_dot (c # cs) = (if c \<noteq> CHR ''.'' then True else has_non_dot cs)"

definition os_path_splitext :: "string \<Rightarrow> string \<times> string" where
  "os_path_splitext p =
     (let sepIndex = rfind CHR ''/'' p;
          dotIndex = rfind CHR ''.'' p
      in if sepIndex < dotIndex
            \<and> has_non_dot (take (nat dotIndex - nat (sepIndex + 1)) (drop (nat (sepIndex + 1)) p))
         then (take (nat dotIndex) p, drop (nat dotIndex) p)
         else (p, []))"

text \<open>\<^verbatim>\<open>os.path.join(a, b)\<close> with two arguments.\<close>

definition os_path_join :: "string \<Rightarrow> string \<Rightarrow> string" where
  "os_path_join a b =
     (if b \<noteq> [] \<and> hd b = CHR ''/'' then b
      else if a = [] \<or> last a = CHR ''/'' then a @ b
      else a @ ''/'' @ b)"

subsection \<open>\<^verbatim>\<open>str.splitlines\<close>\<close>

text \<open>
  The line boundaries below code point 256: line feed, carriage return (with a
  following line feed as one boundary), vertical tab, form feed, the file, group and
  record separators, and next line.
\<close>

definition is_linebreak :: "char \<Rightarrow> bool" where
  "is_linebreak c =
     (c \<in> {CHR 0x0A, CHR 0x0D, CHR 0x0B, CHR 0x0C, CHR 0x1C, CHR 0x1D, CHR 0x1E, CHR 0x85})"

fun splitlines_from :: "string \<Rightarrow> string \<Rightarrow> string list" where
  "splitlines_from cur [] = (if cur = [] then [] else [cur])"
| "splitlines_from cur (c # cs) =
     (if c = CHR 0x0D then
        (case cs of
           [] \<Rightarrow> [cur]
         | c' # cs' \<Rightarrow>
             if c' = CHR 0x0A then cur # splitlines_from [] cs'
             else cur # splitlines_from [] (c' # cs'))
      else if is_linebreak c then cur # splitlines_from [] cs
      else splitlines_from (cur @ [c]) cs)"

definition splitlines :: "string \<Rightarrow> string list" where
  "splitlines s = splitlines_from [] s"

subsection \<open>The world: the file system and GDAL\<close>

datatype gdal_type =
  GDT_Byte | GDT_UInt16 | GDT_Int16 | GDT_UInt32 | GDT_Int32 | GDT_Float32 | GDT_Float64

text \<open>
  A raster dataset: \<open>'g\<close> is the type of a geotransform, \<open>'a\<close> of the pixel array of
  one band. A band that was never written is \<open>None\<close>. The band count
  \<^verbatim>\<open>RasterCount\<close> is the length of \<open>bands\<close>. The conversion of the pixel values
  that GDAL does when it writes an array is not modelled: a band holds the array
  written into it, and the dataset its pixel type.
\<close>

record ('g, 'a) dataset =
  RasterXSize :: nat
  RasterYSize :: nat
  GeoTransform :: "'g option"
  Projection :: string
  pixel_type :: gdal_type
  bands :: "'a option list"

definition RasterCount :: "('g, 'a) dataset \<Rightarrow> nat" where
  "RasterCount ds = length (bands ds)"

datatype ('g, 'a) content = Text string | Raster "('g, 'a) dataset"

datatype gdal_call = Open string | GetDriverByName string | Create string

datatype output_line =
    ListNotFound string
      \<comment> \<open>\<^verbatim>\<open>Error: The file list at ... was not found. Exiting.\<close>\<close>
  | ConversionError error
      \<comment> \<open>\<^verbatim>\<open>An error occurred during conversion: ...\<close>\<close>
  | OutputFilesSaved string
      \<comment> \<open>\<^verbatim>\<open>Output Files saved to: ...\<close>\<close>
  | TimeVectorSaved string
      \<comment> \<open>\<^verbatim>\<open>Time Vector saved to: ...\<close>\<close>

text \<open>
  \<open>fs\<close> maps a path to the file there. \<open>envi_driver\<close> says whether
  \<^verbatim>\<open>gdal.GetDriverByName('ENVI')\<close> returns a driver, \<open>gdal_creatable\<close> at which
  paths its \<^verbatim>\<open>Create\<close> returns a dataset, \<open>writable\<close> at which paths
  \<^verbatim>\<open>open(path, 'w')\<close> succeeds. \<open>gdal_calls\<close> records the calls into GDAL in
  order, \<open>stdout\<close> the lines printed.
\<close>

record ('g, 'a) world =
  fs :: "string \<Rightarrow> ('g, 'a) content option"
  envi_driver :: bool
  gdal_creatable :: "string \<Rightarrow> bool"
  writable :: "string \<Rightarrow> bool"
  gdal_calls :: "gdal_call list"
  stdout :: "output_line list"

text \<open>\<^verbatim>\<open>gdal.Open(path, gdal.GA_ReadOnly)\<close>: a dataset, or \<open>None\<close>.\<close>

definition gdal_Open :: "('g, 'a) world \<Rightarrow> string \<Rightarrow> ('g, 'a) dataset option" where
  "gdal_Open w path = (case fs w path of Some (Raster ds) \<Rightarrow> Some ds | _ \<Rightarrow> None)"

text \<open>
  \<^verbatim>\<open>driver.Create(path, width, height, bands, dtype)\<close>: a new dataset with no
  geotransform, no projection and unwritten bands, or \<open>None\<close>.
\<close>

definition driver_Create ::
  "('g, 'a) world \<Rightarrow> string \<Rightarrow> nat \<Rightarrow> nat \<Rightarrow> nat \<Rightarrow> gdal_type \<Rightarrow> ('g, 'a) dataset option" where
  "driver_Create w path width height n dt =
     (if gdal_creatable w path
      then Some \<lparr>RasterXSize = width, RasterYSize = height, GeoTransform = None,
                 Projection = [], pixel_type = dt, bands = replicate n None\<rparr>
      else None)"

subsection \<open>\<^verbatim>\<open>geotiff_to_envi\<close>\<close>

definition dtype_map :: "string \<Rightarrow> gdal_type option" where
  "dtype_map = map_of [(''float32'', GDT_Float32), (''int16'', GDT_Int16), (''uint8'', GDT_Byte)]"

text \<open>The two lists that the loop appends to.\<close>

record loop_vars =
  output_files :: "string list"
  time_vector :: "string list"

text \<open>
  The loop \<^verbatim>\<open>for band in range(1, bands + 1)\<close>: band \<open>band\<close> of the source is read
  and written to band \<open>band\<close> of the destination.
\<close>

definition copy_bands :: "('g, 'a) dataset \<Rightarrow> ('g, 'a) dataset \<Rightarrow> nat \<Rightarrow> ('g, 'a) dataset" where
  "copy_bands src_ds dst_ds n =
     fold (\<lambda>band dst. dst\<lparr>bands := (bands dst)[band - 1 := bands src_ds ! (band - 1)]\<rparr>)
       [1..<n + 1] dst_ds"

text \<open>
  One iteration of the loop over \<^verbatim>\<open>file_list\<close>. The result is the exception raised,
  if any, with the loop's lists and the world as they are at that point. The source
  dataset is read as it was when opened; the destination file holds the new dataset
  once both are closed.
\<close>

definition geotiff_to_envi_iteration ::
  "string \<Rightarrow> string \<Rightarrow> regex \<Rightarrow> string \<Rightarrow> loop_vars \<times> ('g, 'a) world
     \<Rightarrow> error option \<times> loop_vars \<times> ('g, 'a) world" where
  "geotiff_to_envi_iteration output_folder output_dtype fmt geotiff_path st =
     (case st of (vars, w) \<Rightarrow>
      case extract_date_from_filename (os_path_basename geotiff_path) fmt of
        Inl e \<Rightarrow> (Some e, vars, w)
      | Inr date_str \<Rightarrow>
         (let vars1 = vars\<lparr>time_vector := time_vector vars @ [date_str]\<rparr>;
              output_filename = fst (os_path_splitext (os_path_basename geotiff_path)) @ ''.img'';
              output_path = os_path_join output_folder output_filename;
              vars2 = vars1\<lparr>output_files := output_files vars1 @ [output_path]\<rparr>;
              w1 = w\<lparr>gdal_calls := gdal_calls w @ [Open geotiff_path]\<rparr>
          in case gdal_Open w geotiff_path of
               None \<Rightarrow> (Some (SourceOpenFailure geotiff_path), vars2, w1)
             | Some src_ds \<Rightarrow>
                (let width = RasterXSize src_ds;
                     height = RasterYSize src_ds;
                     n = RasterCount src_ds;
                     geotransform = GeoTransform src_ds;
                     projection = Projection src_ds;
                     w2 = w1\<lparr>gdal_calls := gdal_calls w1 @ [GetDriverByName ''ENVI'']\<rparr>
                 in if \<not> envi_driver w then (Some DriverUnavailable, vars2, w2)
                    else
                      (case dtype_map output_dtype of
                         None \<Rightarrow> (Some (KeyError output_dtype), vars2, w2)
                       | Some dt \<Rightarrow>
                          (let w3 = w2\<lparr>gdal_calls := gdal_calls w2 @ [Create output_path]\<rparr>
                           in case driver_Create w output_path width height n dt of
                                None \<Rightarrow> (Some (DestinationCreateFailure output_path), vars2, w3)
                              | Some dst_ds \<Rightarrow>
                                 (let dst1 = dst_ds\<lparr>GeoTransform := geotransform\<rparr>;
                                      dst2 = dst1\<lparr>Projection := projection\<rparr>;
                                      dst3 = copy_bands src_ds dst2 n
                                  in (None, vars2,
                                      w3\<lparr>fs := (fs w3)(output_path \<mapsto> Raster dst3)\<rparr>)))))))"

text \<open>The loop \<^verbatim>\<open>for geotiff_path in file_list\<close>: it stops at the first exception.\<close>

fun geotiff_to_envi_loop ::
  "string \<Rightarrow> string \<Rightarrow> regex \<Rightarrow> string list \<Rightarrow> loop_vars \<times> ('g, 'a) world
     \<Rightarrow> error option \<times> loop_vars \<times> ('g, 'a) world" where
  "geotiff_to_envi_loop output_folder output_dtype fmt [] st = (None, st)"
| "geotiff_to_envi_loop output_folder output_dtype fmt (geotiff_path # rest) st =
     (case geotiff_to_envi_iteration output_folder output_dtype fmt geotiff_path st of
        (Some e, st') \<Rightarrow> (Some e, st')
      | (None, st') \<Rightarrow> geotiff_to_envi_loop output_folder output_dtype fmt rest st')"

text \<open>
  When an exception leaves the function, the two lists are lost; the world stays as it
  is.
\<close>

definition geotiff_to_envi ::
  "('g, 'a) world \<Rightarrow> string list \<Rightarrow> string \<Rightarrow> string \<Rightarrow> regex
     \<Rightarrow> (error + string list \<times> string list) \<times> ('g, 'a) world" where
  "geotiff_to_envi w file_list output_folder output_dtype fmt =
     (if dtype_map output_dtype = None then (Inl (UnsupportedPixelType output_dtype), w)
      else
        (case geotiff_to_envi_loop output_folder output_dtype fmt file_list
                (\<lparr>output_files = [], time_vector = []\<rparr>, w) of
           (Some e, vars, w') \<Rightarrow> (Inl e, w')
         | (None, vars, w') \<Rightarrow> (Inr (output_files vars, time_vector vars), w')))"

subsection \<open>\<^verbatim>\<open>read_file_list\<close>, \<^verbatim>\<open>save_list_to_file\<close> and \<^verbatim>\<open>main\<close>\<close>

definition read_file_list :: "('g, 'a) world \<Rightarrow> string \<Rightarrow> error + string list" where
  "read_file_list w file_path =
     (case fs w file_path of
        None \<Rightarrow> Inl (MissingInputList file_path)
      | Some (Raster ds) \<Rightarrow> Inl (InputListUnreadable file_path)
      | Some (Text t) \<Rightarrow> Inr (splitlines t))"

definition save_list_to_file ::
  "('g, 'a) world \<Rightarrow> string list \<Rightarrow> string \<Rightarrow> error + ('g, 'a) world" where
  "save_list_to_file w data_list file_path =
     (if \<not> writable w file_path then Inl (ManifestWriteFailure file_path)
      else Inr (w\<lparr>fs := (fs w)(file_path \<mapsto>
                  Text (fold (\<lambda>item written. written @ item @ [CHR 0x0A]) data_list []))\<rparr>))"

record args =
  file_list_path :: string
  output_folder :: string
  output_dtype :: string

datatype outcome = Returned | Raised error | SystemExit nat

definition print :: "output_line \<Rightarrow> ('g, 'a) world \<Rightarrow> ('g, 'a) world" where
  "print l w = w\<lparr>stdout := stdout w @ [l]\<rparr>"

text \<open>
  \<^verbatim>\<open>main\<close>, from the parsed arguments on. \<^verbatim>\<open>argparse\<close> exits with status 2 on a
  value of \<^verbatim>\<open>--output_dtype\<close> outside its \<^verbatim>\<open>choices\<close>.
\<close>

definition main :: "('g, 'a) world \<Rightarrow> args \<Rightarrow> outcome \<times> ('g, 'a) world" where
  "main w a =
     (if output_dtype a \<notin> set [''uint8'', ''int16'', ''float32''] then (SystemExit 2, w)
      else
        (case read_file_list w (file_list_path a) of
           Inl (MissingInputList p) \<Rightarrow> (Returned, print (ListNotFound (file_list_path a)) w)
         | Inl e \<Rightarrow> (Raised e, w)
         | Inr file_list \<Rightarrow>
            (case geotiff_to_envi w file_list (output_folder a) (output_dtype a) date_format of
               (Inl e, w1) \<Rightarrow> (Returned, print (ConversionError e) w1)
             | (Inr (out_files, tvec), w1) \<Rightarrow>
                (let output_file_list_path = os_path_join (output_folder a) ''ENVI_file_list.txt'';
                     time_vector_path = os_path_join (output_folder a) ''time_vector.txt''
                 in case save_list_to_file w1 out_files output_file_list_path of
                      Inl e \<Rightarrow> (Raised e, w1)
                    | Inr w2 \<Rightarrow>
                       (case save_list_to_file w2 tvec time_vector_path of
                          Inl e \<Rightarrow> (Raised e, w2)
                        | Inr w3 \<Rightarrow>
                           (Returned,
                            print (TimeVectorSaved time_vector_path)
                              (print (OutputFilesSaved output_file_list_path) w3)))))))"

subsection \<open>The date token as the specification words it\<close>

text \<open>
  The specification's wording of the date token, to be compared with
  \<open>extract_date_from_filename\<close>: the first substring of eight digits is the one at
  the least index where eight digits start; the day of the year counts the days of the
  months before, and the day of the month.
\<close>

definition digit_run_at :: "string \<Rightarrow> nat \<Rightarrow> bool" where
  "digit_run_at s i = (i + 8 \<le> length s \<and> list_all isdigit (take 8 (drop i s)))"

definition has_digit_run :: "string \<Rightarrow> bool" where
  "has_digit_run s = (\<exists>i. digit_run_at s i)"

definition first_digit_run :: "string \<Rightarrow> string option" where
  "first_digit_run s =
     (if has_digit_run s then Some (take 8 (drop (LEAST i. digit_run_at s i) s)) else None)"

definition day_of_year :: "date \<Rightarrow> nat" where
  "day_of_year dt = (\<Sum>k = 1..<month dt. days_in_month (year dt) k) + day dt"

definition spec_date_token :: "string \<Rightarrow> error + string" where
  "spec_date_token filename =
     (case first_digit_run filename of
        None \<Rightarrow> Inl (DateFormatNotFound filename)
      | Some digits \<Rightarrow>
          (case strptime_Ymd digits of
             Inl e \<Rightarrow> Inl e
           | Inr dt \<Rightarrow> Inr (str_nat (year dt) @ format_03d (day_of_year dt))))"

text \<open>The value of \<^verbatim>\<open>output_path\<close> in the iteration for \<^verbatim>\<open>geotiff_path\<close>.\<close>

definition output_path_of :: "string \<Rightarrow> string \<Rightarrow> string" where
  "output_path_of out_dir geotiff_path =
     os_path_join out_dir (fst (os_path_splitext (os_path_basename geotiff_path)) @ ''.img'')"

subsection \<open>A small world for examples\<close>

text \<open>
  Two rasters with the same base name in two directories, and three list files: one
  naming both rasters, one with a blank line between them, one naming a raster that
  does not exist.
\<close>

definition example_dataset :: "(nat, nat) dataset" where
  "example_dataset =
     \<lparr>RasterXSize = 2, RasterYSize = 3, GeoTransform = Some 7, Projection = ''WGS84'',
      pixel_type = GDT_UInt16, bands = [Some 5, Some 6]\<rparr>"

definition example_dataset' :: "(nat, nat) dataset" where
  "example_dataset' =
     \<lparr>RasterXSize = 4, RasterYSize = 1, GeoTransform = Some 9, Projection = ''UTM33'',
      pixel_type = GDT_Byte, bands = [Some 8]\<rparr>"

definition example_fs :: "string \<Rightarrow> (nat, nat) content option" where
  "example_fs =
     [''/in/s_20230405.tif'' \<mapsto> Raster example_dataset,
      ''/in2/s_20230405.tif'' \<mapsto> Raster example_dataset',
      ''/lists/ok.txt'' \<mapsto>
         Text (''/in/s_20230405.tif'' @ [CHR 0x0A] @ ''/in2/s_20230405.tif'' @ [CHR 0x0A]),
      ''/lists/blank.txt'' \<mapsto>
         Text (''/in/s_20230405.tif'' @ [CHR 0x0A, CHR 0x0A] @ ''/in2/s_20230405.tif''
               @ [CHR 0x0A]),
      ''/lists/missing.txt'' \<mapsto>
         Text (''/in/s_20230405.tif'' @ [CHR 0x0A] @ ''/nowhere/s_20230406.tif''
               @ [CHR 0x0A])]"

definition example_world :: "(nat, nat) world" where
  "example_world =
     \<lparr>fs = example_fs, envi_driver = True, gdal_creatable = (\<lambda>p. True),
      writable = (\<lambda>p. True), gdal_calls = [], stdout = []\<rparr>"

definition no_vars :: loop_vars where
  "no_vars = \<lparr>output_files = [], time_vector = []\<rparr>"

section \<open>Properties\<close>

subsection \<open>Date extraction\<close>

lemmas date_eval =
  extract_date_from_filename_def date_format_def isdigit_def strptime_Ymd_def
  int_of_digits_def digit_value_def days_in_month_def is_leap_def tm_yday_def
  days_before_month_def format_03d_def str_nat.simps digit_char_def

lemma digit_run_at_0: "digit_run_at s 0 = (re_match Digits8 s \<noteq> None)"
  by (simp add: digit_run_at_def)

lemma digit_run_at_Suc: "digit_run_at (c # cs) (Suc i) = digit_run_at cs i"
  by (auto simp: digit_run_at_def)

lemma digit_run_at_Nil: "\<not> digit_run_at [] i"
  by (simp add: digit_run_at_def)

lemma re_search_None: "re_search Digits8 s = None \<longleftrightarrow> \<not> has_digit_run s"
proof (induction s)
  case Nil
  show ?case by (simp add: has_digit_run_def digit_run_at_def)
next
  case (Cons c cs)
  show ?case
  proof (cases "re_match Digits8 (c # cs)")
    case None
    then have no0: "\<not> digit_run_at (c # cs) 0" by (simp add: digit_run_at_0)
    have "has_digit_run (c # cs) \<longleftrightarrow> has_digit_run cs"
    proof
      assume "has_digit_run (c # cs)"
      then obtain i where i: "digit_run_at (c # cs) i" by (auto simp: has_digit_run_def)
      with no0 obtain j where "i = Suc j" by (cases i) auto
      with i show "has_digit_run cs" by (auto simp: has_digit_run_def digit_run_at_Suc)
    next
      assume "has_digit_run cs"
      then obtain i where "digit_run_at cs i" by (auto simp: has_digit_run_def)
      then have "digit_run_at (c # cs) (Suc i)" by (simp add: digit_run_at_Suc)
      then show "has_digit_run (c # cs)" unfolding has_digit_run_def by blast
    qed
    with None Cons show ?thesis by simp
  next
    case (Some m)
    then have "digit_run_at (c # cs) 0" by (simp add: digit_run_at_0)
    then have "has_digit_run (c # cs)" unfolding has_digit_run_def by blast
    with Some show ?thesis by simp
  qed
qed

lemma re_search_Some:
  "re_search Digits8 s = Some m \<Longrightarrow>
     \<exists>i. digit_run_at s i \<and> (\<forall>j<i. \<not> digit_run_at s j) \<and> m = take 8 (drop i s)"
proof (induction s)
  case Nil
  then show ?case by simp
next
  case (Cons c cs)
  show ?case
  proof (cases "re_match Digits8 (c # cs)")
    case None
    then have no0: "\<not> digit_run_at (c # cs) 0" by (simp add: digit_run_at_0)
    from None Cons.prems have "re_search Digits8 cs = Some m" by simp
    from Cons.IH [OF this] obtain i where
      i: "digit_run_at cs i" "\<forall>j<i. \<not> digit_run_at cs j" "m = take 8 (drop i cs)" by blast
    have "\<forall>j<Suc i. \<not> digit_run_at (c # cs) j"
    proof (intro allI impI)
      fix j assume "j < Suc i"
      then show "\<not> digit_run_at (c # cs) j"
        using no0 i(2) by (cases j) (auto simp: digit_run_at_Suc)
    qed
    with i(1,3) have "digit_run_at (c # cs) (Suc i) \<and> (\<forall>j<Suc i. \<not> digit_run_at (c # cs) j)
        \<and> m = take 8 (drop (Suc i) (c # cs))"
      by (simp add: digit_run_at_Suc)
    then show ?thesis by blast
  next
    case (Some m')
    with Cons.prems have m: "m = take 8 (c # cs)" by (auto split: if_splits)
    from Some have "digit_run_at (c # cs) 0" by (simp add: digit_run_at_0)
    with m have "digit_run_at (c # cs) 0 \<and> (\<forall>j<0. \<not> digit_run_at (c # cs) j)
        \<and> m = take 8 (drop 0 (c # cs))" by simp
    then show ?thesis by blast
  qed
qed

lemma re_search_first_digit_run: "re_search Digits8 s = first_digit_run s"
proof (cases "re_search Digits8 s")
  case None
  then show ?thesis by (simp add: first_digit_run_def re_search_None)
next
  case (Some m)
  from re_search_Some [OF Some] obtain i where
    i: "digit_run_at s i" "\<forall>j<i. \<not> digit_run_at s j" "m = take 8 (drop i s)" by blast
  have "(LEAST k. digit_run_at s k) = i"
  proof (rule Least_equality)
    show "digit_run_at s i" by (rule i(1))
  next
    fix y assume "digit_run_at s y"
    with i(2) show "i \<le> y" by (meson not_le)
  qed
  moreover have "has_digit_run s" using i(1) unfolding has_digit_run_def by blast
  ultimately show ?thesis using Some i(3) by (simp add: first_digit_run_def)
qed

lemma days_before_month_sum:
  "1 \<le> m \<Longrightarrow> m \<le> 12 \<Longrightarrow> days_before_month y m = (\<Sum>k = 1..<m. days_in_month y k)"
proof -
  assume "1 \<le> m" "m \<le> 12"
  then have "m = 1 \<or> m = 2 \<or> m = 3 \<or> m = 4 \<or> m = 5 \<or> m = 6 \<or> m = 7 \<or> m = 8
      \<or> m = 9 \<or> m = 10 \<or> m = 11 \<or> m = 12" by presburger
  then show ?thesis
    by (elim disjE)
      (simp_all add: days_before_month_def days_in_month_def sum.atLeast_Suc_lessThan)
qed

lemma strptime_Ymd_month: "strptime_Ymd s = Inr dt \<Longrightarrow> 1 \<le> month dt \<and> month dt \<le> 12"
  by (auto simp: strptime_Ymd_def Let_def split: if_splits)

lemma tm_yday_day_of_year: "strptime_Ymd s = Inr dt \<Longrightarrow> tm_yday dt = day_of_year dt"
  using strptime_Ymd_month [of s dt] by (simp add: tm_yday_def day_of_year_def days_before_month_sum)

lemma extract_spec: "extract_date_from_filename filename date_format = spec_date_token filename"
  by (auto simp: extract_date_from_filename_def spec_date_token_def date_format_def
      re_search_first_digit_run tm_yday_day_of_year split: option.splits sum.splits)

lemma has_digit_run_code: "has_digit_run s = (re_search Digits8 s \<noteq> None)"
  by (simp add: re_search_None)

text \<open>
  C4: the date token is a function of the file name alone; for
  \<^verbatim>\<open>scene_20230405_x.tif\<close> it is \<^verbatim>\<open>2023095\<close>, and for every file name it is what
  the specification words: the first substring of eight digits, parsed as a date of the
  form YYYYMMDD, written as the year followed by the day of the year.
\<close>

theorem date_token_derivation:
  "extract_date_from_filename ''scene_20230405_x.tif'' date_format = Inr ''2023095''
   \<and> extract_date_from_filename filename date_format = spec_date_token filename"
proof
  show "extract_date_from_filename ''scene_20230405_x.tif'' date_format = Inr ''2023095''"
    by (simp add: date_eval)
  show "extract_date_from_filename filename date_format = spec_date_token filename"
    by (rule extract_spec)
qed

theorem date_token_derivation_witness:
  "spec_date_token ''x_20240229.tif'' = Inr ''2024060''"
proof -
  have "spec_date_token ''x_20240229.tif''
      = extract_date_from_filename ''x_20240229.tif'' date_format"
    using date_token_derivation [of "''x_20240229.tif''"] by simp
  also have "\<dots> = Inr ''2024060''"
    by (simp add: date_eval)
  finally show ?thesis .
qed

text \<open>
  C5: the token of a valid date is meant to have seven characters, a year of four
  digits and a day of the year of three. The year is written without padding: in
  \<^verbatim>\<open>tile_00120304_20230405.tif\<close> the first eight digits are the valid date 4 March
  of the year 12, and the token is \<^verbatim>\<open>12064\<close>, of five characters.
\<close>

theorem date_token_short_year:
  "strptime_Ymd ''00120304'' = Inr \<lparr>year = 12, month = 3, day = 4\<rparr>
   \<and> extract_date_from_filename ''tile_00120304_20230405.tif'' date_format = Inr ''12064''"
  by (simp add: date_eval)

text \<open>
  C6: a file name with no run of eight digits raises the error "date format not
  found"; the loop searches the base name of the path, so that digits in a directory
  name do not count.
\<close>

theorem date_format_not_found:
  "(\<not> has_digit_run filename \<longrightarrow>
      extract_date_from_filename filename date_format = Inl (DateFormatNotFound filename))
   \<and> (\<not> has_digit_run (os_path_basename geotiff_path) \<longrightarrow>
      geotiff_to_envi_iteration out_dir dtype date_format geotiff_path (vars, w)
        = (Some (DateFormatNotFound (os_path_basename geotiff_path)), vars, w))"
  by (simp add: extract_date_from_filename_def geotiff_to_envi_iteration_def date_format_def
      has_digit_run_code)

theorem date_format_not_found_witness:
  "\<not> has_digit_run ''scene.tif''
   \<and> extract_date_from_filename ''scene.tif'' date_format = Inl (DateFormatNotFound ''scene.tif'')
   \<and> has_digit_run ''/data/20230405/scene.tif''
   \<and> \<not> has_digit_run (os_path_basename ''/data/20230405/scene.tif'')
   \<and> geotiff_to_envi_iteration ''out'' ''float32'' date_format ''/data/20230405/scene.tif''
         (no_vars, example_world)
       = (Some (DateFormatNotFound ''scene.tif''), no_vars, example_world)"
proof -
  have base: "os_path_basename ''/data/20230405/scene.tif'' = ''scene.tif''"
    by (simp add: os_path_basename_def)
  have no: "\<not> has_digit_run ''scene.tif''"
    by (simp add: has_digit_run_code isdigit_def)
  have yes: "has_digit_run ''/data/20230405/scene.tif''"
    by (simp add: has_digit_run_code isdigit_def)
  show ?thesis
    using date_format_not_found [where filename = "''scene.tif''"
        and geotiff_path = "''/data/20230405/scene.tif''" and out_dir = "''out''"
        and dtype = "''float32''" and vars = no_vars and w = example_world]
      base no yes
    by simp
qed

subsection \<open>Paths and band copies\<close>

lemma rfind_ge: "- 1 \<le> rfind c s"
  by (induction s) (auto simp: Let_def)

lemma rfind_lt: "rfind c s < int (length s)"
  by (induction s) (auto simp: Let_def)

lemma rfind_neg: "rfind c s < 0 \<Longrightarrow> c \<notin> set s"
  by (induction s) (auto simp: Let_def split: if_splits)

lemma rfind_nth: "0 \<le> rfind c s \<Longrightarrow> s ! nat (rfind c s) = c"
proof (induction s)
  case Nil
  then show ?case by simp
next
  case (Cons x xs)
  show ?case
  proof (cases "0 \<le> rfind c xs")
    case True
    then have "nat (rfind c xs + 1) = Suc (nat (rfind c xs))" by simp
    with True Cons.IH show ?thesis by (simp add: Let_def)
  next
    case False
    with Cons.prems show ?thesis by (simp add: Let_def split: if_splits)
  qed
qed

lemma rfind_after: "c \<notin> set (drop (nat (rfind c s + 1)) s)"
proof (induction s)
  case Nil
  then show ?case by simp
next
  case (Cons x xs)
  show ?case
  proof (cases "0 \<le> rfind c xs")
    case True
    then have "nat (rfind c xs + 1 + 1) = Suc (nat (rfind c xs + 1))" by simp
    with True Cons.IH show ?thesis by (simp add: Let_def)
  next
    case False
    then have "c \<notin> set xs" by (simp add: rfind_neg)
    with False show ?thesis by (simp add: Let_def)
  qed
qed

lemma basename_no_sep: "CHR ''/'' \<notin> set (os_path_basename p)"
  unfolding os_path_basename_def by (rule rfind_after)

lemma basename_split:
  "\<exists>dir. p = dir @ os_path_basename p \<and> (dir = [] \<or> last dir = CHR ''/'')"
proof (cases "0 \<le> rfind CHR ''/'' p")
  case True
  let ?k = "nat (rfind CHR ''/'' p)"
  have k: "?k < length p" using rfind_lt [of "CHR ''/''" p] True by simp
  have "nat (rfind CHR ''/'' p + 1) = Suc ?k" using True by simp
  then have b: "os_path_basename p = drop (Suc ?k) p" by (simp add: os_path_basename_def)
  have "last (take (Suc ?k) p) = p ! ?k"
    using k by (simp add: take_Suc_conv_app_nth)
  then have "last (take (Suc ?k) p) = CHR ''/''" using rfind_nth [OF True] by simp
  moreover have "p = take (Suc ?k) p @ os_path_basename p" using b by simp
  ultimately show ?thesis by blast
next
  case False
  then have "os_path_basename p = p" by (simp add: os_path_basename_def)
  then show ?thesis by simp
qed

lemma splitext_append: "fst (os_path_splitext b) @ snd (os_path_splitext b) = b"
  by (simp add: os_path_splitext_def Let_def)

lemma splitext_stem_subset: "set (fst (os_path_splitext b)) \<subseteq> set b"
  by (auto simp: os_path_splitext_def Let_def dest: in_set_takeD)

lemma splitext_ext: "snd (os_path_splitext b) = [] \<or> hd (snd (os_path_splitext b)) = CHR ''.''"
proof (cases "0 \<le> rfind CHR ''.'' b")
  case True
  have "nat (rfind CHR ''.'' b) < length b" using rfind_lt [of "CHR ''.''" b] True by simp
  then have "hd (drop (nat (rfind CHR ''.'' b)) b) = b ! nat (rfind CHR ''.'' b)"
    by (simp add: hd_drop_conv_nth)
  with rfind_nth [OF True] show ?thesis by (simp add: os_path_splitext_def Let_def)
next
  case False
  with rfind_ge [of "CHR ''/''" b] show ?thesis by (simp add: os_path_splitext_def Let_def)
qed

lemma splitext_ext_no_dot: "CHR ''.'' \<notin> set (tl (snd (os_path_splitext b)))"
proof (cases "0 \<le> rfind CHR ''.'' b")
  case True
  then have "nat (rfind CHR ''.'' b + 1) = Suc (nat (rfind CHR ''.'' b))" by simp
  with rfind_after [of "CHR ''.''" b] show ?thesis
    by (simp add: os_path_splitext_def Let_def drop_Suc tl_drop)
next
  case False
  with rfind_ge [of "CHR ''/''" b] show ?thesis by (simp add: os_path_splitext_def Let_def)
qed

lemma join_relative:
  "b \<noteq> [] \<Longrightarrow> hd b \<noteq> CHR ''/'' \<Longrightarrow>
   os_path_join a b = (if a = [] \<or> last a = CHR ''/'' then a else a @ ''/'') @ b"
  by (simp add: os_path_join_def)

lemma join_last: "b \<noteq> [] \<Longrightarrow> last (os_path_join a b) = last b"
  by (simp add: os_path_join_def)

lemma output_filename_no_sep:
  "CHR ''/'' \<notin> set (fst (os_path_splitext (os_path_basename p)) @ ''.img'')"
  using splitext_stem_subset [of "os_path_basename p"] basename_no_sep [of p] by auto

lemma output_path_of_eq:
  "output_path_of out_dir p =
     (if out_dir = [] \<or> last out_dir = CHR ''/'' then out_dir else out_dir @ ''/'')
       @ fst (os_path_splitext (os_path_basename p)) @ ''.img''"
proof -
  let ?b = "fst (os_path_splitext (os_path_basename p)) @ ''.img''"
  have "?b \<noteq> []" by simp
  moreover have "hd ?b \<noteq> CHR ''/''"
    using output_filename_no_sep [of p] by (cases "fst (os_path_splitext (os_path_basename p))") auto
  ultimately show ?thesis unfolding output_path_of_def by (rule join_relative)
qed

lemma output_path_of_last: "last (output_path_of out_dir p) = CHR ''g''"
  by (simp add: output_path_of_def join_last)

lemma copy_bands_prefix:
  "k \<le> length (bands src) \<Longrightarrow> length (bands dst) = length (bands src) \<Longrightarrow>
   copy_bands src dst k = dst\<lparr>bands := take k (bands src) @ drop k (bands dst)\<rparr>"
proof (induction k)
  case 0
  then show ?case by (simp add: copy_bands_def)
next
  case (Suc k)
  then have k: "k < length (bands src)" and IH: "copy_bands src dst k
      = dst\<lparr>bands := take k (bands src) @ drop k (bands dst)\<rparr>" by simp_all
  have "copy_bands src dst (Suc k)
      = (copy_bands src dst k)\<lparr>bands := (bands (copy_bands src dst k))[k := bands src ! k]\<rparr>"
    by (simp add: copy_bands_def)
  also have "\<dots> = dst\<lparr>bands := (take k (bands src) @ drop k (bands dst))[k := bands src ! k]\<rparr>"
    by (simp add: IH)
  also have "(take k (bands src) @ drop k (bands dst))[k := bands src ! k]
      = take (Suc k) (bands src) @ drop (Suc k) (bands dst)"
    using k Suc.prems(2)
    by (simp add: list_update_append take_Suc_conv_app_nth upd_conv_take_nth_drop drop_Suc tl_drop)
  finally show ?case .
qed

lemma copy_bands_all:
  "length (bands dst) = length (bands src) \<Longrightarrow>
   copy_bands src dst (RasterCount src) = dst\<lparr>bands := bands src\<rparr>"
  by (simp add: copy_bands_prefix RasterCount_def)

subsection \<open>One iteration and the loop\<close>

lemma copy_bands_created:
  "copy_bands src
     \<lparr>RasterXSize = RasterXSize src, RasterYSize = RasterYSize src,
      GeoTransform = GeoTransform src, Projection = Projection src, pixel_type = dt,
      bands = replicate (RasterCount src) None\<rparr> (RasterCount src)
   = src\<lparr>pixel_type := dt\<rparr>"
proof -
  let ?dst = "\<lparr>RasterXSize = RasterXSize src, RasterYSize = RasterYSize src,
      GeoTransform = GeoTransform src, Projection = Projection src, pixel_type = dt,
      bands = replicate (RasterCount src) None\<rparr>"
  have "length (bands ?dst) = length (bands src)" by (simp add: RasterCount_def)
  then have "copy_bands src ?dst (RasterCount src) = ?dst\<lparr>bands := bands src\<rparr>"
    by (rule copy_bands_all)
  also have "\<dots> = src\<lparr>pixel_type := dt\<rparr>" by (cases src) simp
  finally show ?thesis .
qed

lemma iteration_cases:
  "geotiff_to_envi_iteration out_dir dtype fmt p (vars, w) = (r, vars', w') \<Longrightarrow>
   (\<exists>e. extract_date_from_filename (os_path_basename p) fmt = Inl e
        \<and> r = Some e \<and> vars' = vars \<and> w' = w)
   \<or> (\<exists>t. extract_date_from_filename (os_path_basename p) fmt = Inr t
        \<and> output_files vars' = output_files vars @ [output_path_of out_dir p]
        \<and> time_vector vars' = time_vector vars @ [t]
        \<and> (r \<noteq> None \<longrightarrow> fs w' = fs w)
        \<and> (r = None \<longrightarrow> (\<exists>src dt. gdal_Open w p = Some src \<and> dtype_map dtype = Some dt
              \<and> envi_driver w \<and> gdal_creatable w (output_path_of out_dir p)
              \<and> w' = w\<lparr>gdal_calls := gdal_calls w @ [Open p, GetDriverByName ''ENVI'',
                                    Create (output_path_of out_dir p)],
                       fs := (fs w)(output_path_of out_dir p \<mapsto> Raster (src\<lparr>pixel_type := dt\<rparr>))\<rparr>)))"
  by (auto simp: geotiff_to_envi_iteration_def output_path_of_def Let_def driver_Create_def
      copy_bands_created split: sum.splits option.splits if_splits)

lemma iteration_fs_frame:
  assumes "geotiff_to_envi_iteration out_dir dtype fmt p (vars, w) = (r, vars', w')"
    and "q \<noteq> output_path_of out_dir p"
  shows "fs w' q = fs w q"
  using iteration_cases [OF assms(1)] assms(2) by (cases r) auto

lemma iteration_env:
  assumes "geotiff_to_envi_iteration out_dir dtype fmt p (vars, w) = (r, vars', w')"
  shows "envi_driver w' = envi_driver w \<and> gdal_creatable w' = gdal_creatable w
         \<and> writable w' = writable w \<and> stdout w' = stdout w"
  using assms
  by (auto simp: geotiff_to_envi_iteration_def Let_def
      split: sum.splits option.splits if_splits)

lemma loop_append:
  "geotiff_to_envi_loop out_dir dtype fmt (xs @ ys) st =
     (case geotiff_to_envi_loop out_dir dtype fmt xs st of
        (Some e, st') \<Rightarrow> (Some e, st')
      | (None, st') \<Rightarrow> geotiff_to_envi_loop out_dir dtype fmt ys st')"
  by (induction xs arbitrary: st) (auto split: prod.splits option.splits)

lemma loop_success:
  "geotiff_to_envi_loop out_dir dtype fmt fl (vars, w) = (None, vars', w') \<Longrightarrow>
   output_files vars' = output_files vars @ map (output_path_of out_dir) fl
   \<and> map Inr (time_vector vars')
       = map Inr (time_vector vars)
         @ map (\<lambda>p. extract_date_from_filename (os_path_basename p) fmt) fl"
proof (induction fl arbitrary: vars w)
  case Nil
  then show ?case by simp
next
  case (Cons p ps)
  obtain r vars1 w1 where it:
    "geotiff_to_envi_iteration out_dir dtype fmt p (vars, w) = (r, vars1, w1)"
    by (cases "geotiff_to_envi_iteration out_dir dtype fmt p (vars, w)") auto
  with Cons.prems have r: "r = None"
    and rest: "geotiff_to_envi_loop out_dir dtype fmt ps (vars1, w1) = (None, vars', w')"
    by (auto split: option.splits)
  from iteration_cases [OF it] r obtain t where
    t: "extract_date_from_filename (os_path_basename p) fmt = Inr t"
      "output_files vars1 = output_files vars @ [output_path_of out_dir p]"
      "time_vector vars1 = time_vector vars @ [t]"
    by auto
  from Cons.IH [OF rest] t show ?case by simp
qed

lemma loop_fs_frame:
  "geotiff_to_envi_loop out_dir dtype fmt fl (vars, w) = (r, vars', w') \<Longrightarrow>
   q \<notin> output_path_of out_dir ` set fl \<Longrightarrow> fs w' q = fs w q"
proof (induction fl arbitrary: vars w)
  case Nil
  then show ?case by simp
next
  case (Cons p ps)
  obtain r1 vars1 w1 where it:
    "geotiff_to_envi_iteration out_dir dtype fmt p (vars, w) = (r1, vars1, w1)"
    by (cases "geotiff_to_envi_iteration out_dir dtype fmt p (vars, w)") auto
  from Cons.prems(2) have q: "q \<noteq> output_path_of out_dir p"
    and qs: "q \<notin> output_path_of out_dir ` set ps" by auto
  have step: "fs w1 q = fs w q" by (rule iteration_fs_frame [OF it q])
  show ?case
  proof (cases r1)
    case None
    with it Cons.prems(1)
    have "geotiff_to_envi_loop out_dir dtype fmt ps (vars1, w1) = (r, vars', w')" by simp
    from Cons.IH [OF this qs] step show ?thesis by simp
  next
    case (Some e)
    with it Cons.prems(1) have "w' = w1" by simp
    with step show ?thesis by simp
  qed
qed

lemma loop_env:
  "geotiff_to_envi_loop out_dir dtype fmt fl (vars, w) = (r, vars', w') \<Longrightarrow>
   envi_driver w' = envi_driver w \<and> gdal_creatable w' = gdal_creatable w
   \<and> writable w' = writable w \<and> stdout w' = stdout w"
proof (induction fl arbitrary: vars w)
  case Nil
  then show ?case by simp
next
  case (Cons p ps)
  obtain r1 vars1 w1 where it:
    "geotiff_to_envi_iteration out_dir dtype fmt p (vars, w) = (r1, vars1, w1)"
    by (cases "geotiff_to_envi_iteration out_dir dtype fmt p (vars, w)") auto
  note step = iteration_env [OF it]
  show ?case
  proof (cases r1)
    case None
    with it Cons.prems(1)
    have "geotiff_to_envi_loop out_dir dtype fmt ps (vars1, w1) = (r, vars', w')" by simp
    from Cons.IH [OF this] step show ?thesis by simp
  next
    case (Some e)
    with it Cons.prems(1) have "w' = w1" by simp
    with step show ?thesis by simp
  qed
qed

lemma loop_failure:
  "geotiff_to_envi_loop out_dir dtype fmt fl (vars, w) = (Some e, vars', w') \<Longrightarrow>
   \<exists>pre p post vars1 w1. fl = pre @ p # post
      \<and> geotiff_to_envi_loop out_dir dtype fmt pre (vars, w) = (None, vars1, w1)
      \<and> geotiff_to_envi_iteration out_dir dtype fmt p (vars1, w1) = (Some e, vars', w')"
proof (induction fl arbitrary: vars w)
  case Nil
  then show ?case by simp
next
  case (Cons p ps)
  obtain r1 vars1 w1 where it:
    "geotiff_to_envi_iteration out_dir dtype fmt p (vars, w) = (r1, vars1, w1)"
    by (cases "geotiff_to_envi_iteration out_dir dtype fmt p (vars, w)") auto
  show ?case
  proof (cases r1)
    case None
    with it Cons.prems
    have "geotiff_to_envi_loop out_dir dtype fmt ps (vars1, w1) = (Some e, vars', w')" by simp
    from Cons.IH [OF this] obtain pre q post vars2 w2 where
      *: "ps = pre @ q # post"
         "geotiff_to_envi_loop out_dir dtype fmt pre (vars1, w1) = (None, vars2, w2)"
         "geotiff_to_envi_iteration out_dir dtype fmt q (vars2, w2) = (Some e, vars', w')"
      by blast
    have "p # ps = (p # pre) @ q # post" using *(1) by simp
    moreover have "geotiff_to_envi_loop out_dir dtype fmt (p # pre) (vars, w) = (None, vars2, w2)"
      using it None *(2) by simp
    ultimately show ?thesis using *(3) by blast
  next
    case (Some e1)
    with it Cons.prems
    have "geotiff_to_envi_iteration out_dir dtype fmt p (vars, w) = (Some e, vars', w')" by simp
    moreover have "p # ps = [] @ p # ps" by simp
    moreover have "geotiff_to_envi_loop out_dir dtype fmt [] (vars, w) = (None, vars, w)" by simp
    ultimately show ?thesis by blast
  qed
qed

lemma geotiff_to_envi_success:
  assumes "geotiff_to_envi w fl out_dir dtype fmt = (Inr (outs, tv), w')"
  shows "outs = map (output_path_of out_dir) fl"
    and "map Inr tv = map (\<lambda>p. extract_date_from_filename (os_path_basename p) fmt) fl"
    and "geotiff_to_envi_loop out_dir dtype fmt fl (no_vars, w)
          = (None, \<lparr>output_files = outs, time_vector = tv\<rparr>, w')"
proof -
  from assms obtain vars' where
    l: "geotiff_to_envi_loop out_dir dtype fmt fl (no_vars, w) = (None, vars', w')"
    and o: "outs = output_files vars'" "tv = time_vector vars'"
    by (auto simp: geotiff_to_envi_def no_vars_def split: if_splits prod.splits option.splits)
  from loop_success [OF l] o show "outs = map (output_path_of out_dir) fl"
    and "map Inr tv = map (\<lambda>p. extract_date_from_filename (os_path_basename p) fmt) fl"
    by (simp_all add: no_vars_def)
  from l o show "geotiff_to_envi_loop out_dir dtype fmt fl (no_vars, w)
          = (None, \<lparr>output_files = outs, time_vector = tv\<rparr>, w')" by simp
qed

lemma geotiff_to_envi_fs_frame:
  assumes "geotiff_to_envi w fl out_dir dtype fmt = (r, w')"
    and "q \<notin> output_path_of out_dir ` set fl"
  shows "fs w' q = fs w q"
proof (cases "dtype_map dtype = None")
  case True
  with assms(1) show ?thesis by (simp add: geotiff_to_envi_def)
next
  case False
  obtain r1 vars1 w1 where
    l: "geotiff_to_envi_loop out_dir dtype fmt fl (no_vars, w) = (r1, vars1, w1)"
    by (cases "geotiff_to_envi_loop out_dir dtype fmt fl (no_vars, w)") auto
  with False assms(1) have "w' = w1"
    by (auto simp: geotiff_to_envi_def no_vars_def split: option.splits)
  with loop_fs_frame [OF l assms(2)] show ?thesis by simp
qed

subsection \<open>The data type check\<close>

lemmas path_eval = os_path_basename_def os_path_splitext_def os_path_join_def Let_def

lemmas world_eval =
  geotiff_to_envi_def geotiff_to_envi_iteration_def gdal_Open_def driver_Create_def
  dtype_map_def copy_bands_def RasterCount_def example_world_def example_fs_def
  example_dataset_def example_dataset'_def no_vars_def

lemma example_run:
  "geotiff_to_envi example_world [''/in/s_20230405.tif'', ''/in2/s_20230405.tif''] ''out''
     ''int16'' date_format
   = (Inr ([''out/s_20230405.img'', ''out/s_20230405.img''], [''2023095'', ''2023095'']),
      example_world
        \<lparr>gdal_calls := [Open ''/in/s_20230405.tif'', GetDriverByName ''ENVI'',
                        Create ''out/s_20230405.img'', Open ''/in2/s_20230405.tif'',
                        GetDriverByName ''ENVI'', Create ''out/s_20230405.img''],
         fs := example_fs(''out/s_20230405.img'' \<mapsto> Raster (example_dataset'\<lparr>pixel_type := GDT_Int16\<rparr>))\<rparr>)"
  by (simp add: world_eval date_eval path_eval)

text \<open>
  C7: for every \<^verbatim>\<open>output_dtype\<close> other than \<^verbatim>\<open>float32\<close>, \<^verbatim>\<open>int16\<close> and
  \<^verbatim>\<open>uint8\<close>, \<^verbatim>\<open>geotiff_to_envi\<close> raises the error "unsupported data type"
  before any file is processed: the world is unchanged, and no call into GDAL was made.
\<close>

theorem unsupported_dtype_before_open:
  assumes "dtype \<notin> {''float32'', ''int16'', ''uint8''}"
  shows "geotiff_to_envi w fl out_dir dtype fmt = (Inl (UnsupportedPixelType dtype), w)
         \<and> gdal_calls (snd (geotiff_to_envi w fl out_dir dtype fmt)) = gdal_calls w"
proof -
  from assms have "dtype_map dtype = None" by (simp add: dtype_map_def)
  then show ?thesis by (simp add: geotiff_to_envi_def)
qed

theorem unsupported_dtype_before_open_witness:
  "''float64'' \<notin> {''float32'', ''int16'', ''uint8''}
   \<and> geotiff_to_envi example_world [''/in/s_20230405.tif''] ''out'' ''float64'' date_format
       = (Inl (UnsupportedPixelType ''float64''), example_world)
   \<and> gdal_calls (snd (geotiff_to_envi example_world [''/in/s_20230405.tif''] ''out''
         ''float64'' date_format)) = []"
proof -
  have h: "''float64'' \<notin> {''float32'', ''int16'', ''uint8''}" by simp
  show ?thesis
    using h unsupported_dtype_before_open [OF h, of example_world "[''/in/s_20230405.tif'']"
        "''out''" date_format]
    by (simp add: example_world_def)
qed

subsection \<open>The returned lists\<close>

text \<open>
  C8: in the returned list, the destination path of the input at position \<open>i\<close> is the
  output directory joined with the file name made of the base name of the input, its
  extension replaced by \<^verbatim>\<open>.img\<close>: the output directory (with a separator unless it
  is empty or ends with one), then the stem, then \<^verbatim>\<open>.img\<close>, with no separator in the
  file name. The stem and the extension make up the base name; the extension is empty
  or starts at the last dot.
\<close>

theorem destination_path:
  assumes "geotiff_to_envi w fl out_dir dtype fmt = (Inr (outs, tv), w')"
    and "i < length fl"
  shows "let b = os_path_basename (fl ! i);
             stem = fst (os_path_splitext b);
             ext = snd (os_path_splitext b)
         in length outs = length fl
            \<and> outs ! i = os_path_join out_dir (stem @ ''.img'')
            \<and> outs ! i = (if out_dir = [] \<or> last out_dir = CHR ''/'' then out_dir
                          else out_dir @ ''/'') @ stem @ ''.img''
            \<and> CHR ''/'' \<notin> set (stem @ ''.img'')
            \<and> b = stem @ ext
            \<and> (ext = [] \<or> hd ext = CHR ''.'') \<and> CHR ''.'' \<notin> set (tl ext)
            \<and> (\<exists>dir. fl ! i = dir @ b \<and> (dir = [] \<or> last dir = CHR ''/''))"
proof -
  let ?b = "os_path_basename (fl ! i)"
  from geotiff_to_envi_success(1) [OF assms(1)]
  have outs: "outs = map (output_path_of out_dir) fl" .
  then have len: "length outs = length fl" by simp
  from outs assms(2) have nth: "outs ! i = output_path_of out_dir (fl ! i)" by simp
  then have j: "outs ! i = os_path_join out_dir (fst (os_path_splitext ?b) @ ''.img'')"
    by (simp add: output_path_of_def)
  note e = nth [unfolded output_path_of_eq]
  note n = output_filename_no_sep [of "fl ! i"]
  note a = splitext_append [of ?b, symmetric]
  note x = splitext_ext [of ?b]
  note d = splitext_ext_no_dot [of ?b]
  note s = basename_split [of "fl ! i"]
  show ?thesis
    unfolding Let_def using len j e n a x d s by blast
qed

theorem destination_path_witness:
  "geotiff_to_envi example_world [''/in/s_20230405.tif'', ''/in2/s_20230405.tif''] ''out''
     ''int16'' date_format
   = (Inr ([''out/s_20230405.img'', ''out/s_20230405.img''], [''2023095'', ''2023095'']),
      snd (geotiff_to_envi example_world [''/in/s_20230405.tif'', ''/in2/s_20230405.tif'']
             ''out'' ''int16'' date_format))
   \<and> (1::nat) < length [''/in/s_20230405.tif'', ''/in2/s_20230405.tif'']
   \<and> os_path_basename ''/in2/s_20230405.tif'' = ''s_20230405.tif''
   \<and> os_path_splitext ''s_20230405.tif'' = (''s_20230405'', ''.tif'')
   \<and> [''out/s_20230405.img'', ''out/s_20230405.img''] ! 1
       = os_path_join ''out'' (''s_20230405'' @ ''.img'')
   \<and> [''out/s_20230405.img'', ''out/s_20230405.img''] ! 1 = ''out'' @ ''/'' @ ''s_20230405'' @ ''.img''"
proof -
  have run: "geotiff_to_envi example_world [''/in/s_20230405.tif'', ''/in2/s_20230405.tif'']
       ''out'' ''int16'' date_format
     = (Inr ([''out/s_20230405.img'', ''out/s_20230405.img''], [''2023095'', ''2023095'']),
        snd (geotiff_to_envi example_world [''/in/s_20230405.tif'', ''/in2/s_20230405.tif'']
               ''out'' ''int16'' date_format))"
    by (simp add: example_run)
  have i: "(1::nat) < length [''/in/s_20230405.tif'', ''/in2/s_20230405.tif'']" by simp
  have b: "os_path_basename ''/in2/s_20230405.tif'' = ''s_20230405.tif''"
    by (simp add: path_eval)
  have x: "os_path_splitext ''s_20230405.tif'' = (''s_20230405'', ''.tif'')"
    by (simp add: path_eval)
  from destination_path [OF run i] b x
  have "[''out/s_20230405.img'', ''out/s_20230405.img''] ! 1
          = os_path_join ''out'' (''s_20230405'' @ ''.img'')
      \<and> [''out/s_20230405.img'', ''out/s_20230405.img''] ! 1
          = ''out'' @ ''/'' @ ''s_20230405'' @ ''.img''"
    by (simp add: Let_def)
  with run i b x show ?thesis by blast
qed

lemma extract_empty: "extract_date_from_filename (os_path_basename []) fmt = Inl (DateFormatNotFound [])"
  by (cases fmt) (simp add: extract_date_from_filename_def os_path_basename_def)

lemma extracted_in_list:
  assumes "map Inr tv = map f fl" and "p \<in> set fl"
  shows "\<exists>t. f p = Inr t"
proof -
  from assms(2) obtain i where i: "i < length fl" "fl ! i = p"
    by (auto simp: in_set_conv_nth)
  from assms(1) have "length tv = length fl" by (rule map_eq_imp_length_eq)
  with i have "map Inr tv ! i = Inr (tv ! i)" by simp
  moreover from i have "map f fl ! i = f p" by simp
  ultimately have "f p = Inr (tv ! i)" using assms(1) by metis
  then show ?thesis by blast
qed

text \<open>
  C3: when no failure occurs on the list that \<^verbatim>\<open>read_file_list\<close> returns, the two
  returned lists have the same length, which is the number of non-empty lines of the
  list file.
\<close>

theorem result_lengths:
  assumes "read_file_list w file_path = Inr fl"
    and "geotiff_to_envi w fl out_dir dtype fmt = (Inr (outs, tv), w')"
  shows "length outs = length tv \<and> length outs = length (filter (\<lambda>line. line \<noteq> []) fl)"
proof -
  from geotiff_to_envi_success(1) [OF assms(2)] have lo: "length outs = length fl" by simp
  from geotiff_to_envi_success(2) [OF assms(2)]
  have tv: "map Inr tv = map (\<lambda>p. extract_date_from_filename (os_path_basename p) fmt) fl" .
  then have "length (map Inr tv :: (error + string) list) = length fl" by simp
  then have lt: "length tv = length fl" by simp
  have "[] \<notin> set fl"
  proof
    assume "[] \<in> set fl"
    from extracted_in_list [OF tv this] show False by (simp add: extract_empty)
  qed
  then have "filter (\<lambda>line. line \<noteq> []) fl = fl" by (induction fl) auto
  with lo lt show ?thesis by simp
qed

lemmas read_eval = read_file_list_def splitlines_def is_linebreak_def example_world_def example_fs_def

lemma example_read_ok:
  "read_file_list example_world ''/lists/ok.txt''
     = Inr [''/in/s_20230405.tif'', ''/in2/s_20230405.tif'']"
  by (simp add: read_eval)

lemma example_read_blank:
  "read_file_list example_world ''/lists/blank.txt''
     = Inr [''/in/s_20230405.tif'', [], ''/in2/s_20230405.tif'']"
  by (simp add: read_eval)

lemma example_read_missing:
  "read_file_list example_world ''/lists/missing.txt''
     = Inr [''/in/s_20230405.tif'', ''/nowhere/s_20230406.tif'']"
  by (simp add: read_eval)

theorem result_lengths_witness:
  "read_file_list example_world ''/lists/ok.txt''
     = Inr [''/in/s_20230405.tif'', ''/in2/s_20230405.tif'']
   \<and> fst (geotiff_to_envi example_world [''/in/s_20230405.tif'', ''/in2/s_20230405.tif'']
            ''out'' ''int16'' date_format)
       = Inr ([''out/s_20230405.img'', ''out/s_20230405.img''], [''2023095'', ''2023095''])
   \<and> length [''out/s_20230405.img'', ''out/s_20230405.img'']
       = length [''2023095'', ''2023095'']
   \<and> length [''out/s_20230405.img'', ''out/s_20230405.img'']
       = length (filter (\<lambda>line. line \<noteq> []) [''/in/s_20230405.tif'', ''/in2/s_20230405.tif''])"
  using result_lengths [OF example_read_ok example_run] example_read_ok example_run
  by simp

lemma not_linebreak_not_cr: "\<not> is_linebreak c \<Longrightarrow> c \<noteq> CHR 0x0D"
  by (auto simp: is_linebreak_def)

lemma splitlines_from_line:
  "\<forall>c\<in>set l. \<not> is_linebreak c \<Longrightarrow>
   splitlines_from cur (l @ CHR 0x0A # rest) = (cur @ l) # splitlines_from [] rest"
proof (induction l arbitrary: cur)
  case Nil
  show ?case by (simp add: is_linebreak_def)
next
  case (Cons c l)
  then have c: "\<not> is_linebreak c" "c \<noteq> CHR 0x0D" by (simp_all add: not_linebreak_not_cr)
  from Cons have "splitlines_from (cur @ [c]) (l @ CHR 0x0A # rest)
      = ((cur @ [c]) @ l) # splitlines_from [] rest" by simp
  with c show ?case by simp
qed

lemma splitlines_lines:
  "\<forall>line\<in>set ls. \<forall>c\<in>set line. \<not> is_linebreak c \<Longrightarrow>
   splitlines (concat (map (\<lambda>line. line @ [CHR 0x0A]) ls)) = ls"
proof (induction ls)
  case Nil
  show ?case by (simp add: splitlines_def)
next
  case (Cons l ls)
  then have "splitlines_from [] (l @ CHR 0x0A # concat (map (\<lambda>line. line @ [CHR 0x0A]) ls))
      = l # splitlines_from [] (concat (map (\<lambda>line. line @ [CHR 0x0A]) ls))"
    by (simp add: splitlines_from_line)
  with Cons show ?case by (simp add: splitlines_def)
qed

lemma empty_no_digit_run: "\<not> has_digit_run []"
  by (simp add: has_digit_run_code)

text \<open>
  C9: blank lines are not skipped. \<^verbatim>\<open>read_file_list\<close> returns every line of the
  file, the empty ones too; the base name of an empty line is empty and has no run of
  eight digits; a list with an empty line makes the batch fail, and when the files
  before the empty line convert, the error is "date format not found" for the empty
  name.
\<close>

theorem blank_lines_abort:
  "((\<forall>line\<in>set ls. \<forall>c\<in>set line. \<not> is_linebreak c)
      \<and> fs w file_path = Some (Text (concat (map (\<lambda>line. line @ [CHR 0x0A]) ls)))
     \<longrightarrow> read_file_list w file_path = Inr ls)
   \<and> os_path_basename [] = [] \<and> \<not> has_digit_run []
   \<and> ([] \<in> set fl \<longrightarrow> (\<exists>e. fst (geotiff_to_envi w fl out_dir dtype date_format) = Inl e))
   \<and> ((\<exists>r. fst (geotiff_to_envi w pre out_dir dtype date_format) = Inr r) \<longrightarrow>
        fst (geotiff_to_envi w (pre @ [] # post) out_dir dtype date_format)
          = Inl (DateFormatNotFound []))"
proof (intro conjI impI)
  assume "(\<forall>line\<in>set ls. \<forall>c\<in>set line. \<not> is_linebreak c)
      \<and> fs w file_path = Some (Text (concat (map (\<lambda>line. line @ [CHR 0x0A]) ls)))"
  then show "read_file_list w file_path = Inr ls"
    by (simp add: read_file_list_def splitlines_lines)
next
  show "os_path_basename [] = []" by (simp add: os_path_basename_def)
next
  show "\<not> has_digit_run []" by (rule empty_no_digit_run)
next
  assume blank: "[] \<in> set fl"
  show "\<exists>e. fst (geotiff_to_envi w fl out_dir dtype date_format) = Inl e"
  proof (cases "fst (geotiff_to_envi w fl out_dir dtype date_format)")
    case (Inl e)
    then show ?thesis by blast
  next
    case (Inr r)
    obtain outs tv where r: "r = (outs, tv)" by (cases r) auto
    with Inr have "geotiff_to_envi w fl out_dir dtype date_format
        = (Inr (outs, tv), snd (geotiff_to_envi w fl out_dir dtype date_format))"
      by (simp add: prod_eq_iff)
    from extracted_in_list [OF geotiff_to_envi_success(2) [OF this] blank]
    show ?thesis by (simp add: extract_empty)
  qed
next
  assume "\<exists>r. fst (geotiff_to_envi w pre out_dir dtype date_format) = Inr r"
  then obtain outs tv where "fst (geotiff_to_envi w pre out_dir dtype date_format) = Inr (outs, tv)"
    by auto
  then have run: "geotiff_to_envi w pre out_dir dtype date_format
        = (Inr (outs, tv), snd (geotiff_to_envi w pre out_dir dtype date_format))"
    by (simp add: prod_eq_iff)
  then have dt: "dtype_map dtype \<noteq> None"
    by (auto simp: geotiff_to_envi_def split: if_splits)
  note l = geotiff_to_envi_success(3) [OF run]
  have "geotiff_to_envi_iteration out_dir dtype date_format []
          (\<lparr>output_files = outs, time_vector = tv\<rparr>, snd (geotiff_to_envi w pre out_dir dtype date_format))
        = (Some (DateFormatNotFound []), \<lparr>output_files = outs, time_vector = tv\<rparr>,
           snd (geotiff_to_envi w pre out_dir dtype date_format))"
    by (simp add: geotiff_to_envi_iteration_def extract_empty)
  with l have "geotiff_to_envi_loop out_dir dtype date_format (pre @ [] # post) (no_vars, w)
        = (Some (DateFormatNotFound []), \<lparr>output_files = outs, time_vector = tv\<rparr>,
           snd (geotiff_to_envi w pre out_dir dtype date_format))"
    by (simp add: loop_append)
  with dt show "fst (geotiff_to_envi w (pre @ [] # post) out_dir dtype date_format)
          = Inl (DateFormatNotFound [])"
    by (simp add: geotiff_to_envi_def no_vars_def)
qed

lemma example_run_first:
  "fst (geotiff_to_envi example_world [''/in/s_20230405.tif''] ''out'' ''int16'' date_format)
   = Inr ([''out/s_20230405.img''], [''2023095''])"
  by (simp add: world_eval date_eval path_eval)

theorem blank_lines_abort_witness:
  "(\<forall>line\<in>set [''/in/s_20230405.tif'', [], ''/in2/s_20230405.tif'']. \<forall>c\<in>set line.
       \<not> is_linebreak c)
   \<and> fs example_world ''/lists/blank.txt''
       = Some (Text (concat (map (\<lambda>line. line @ [CHR 0x0A])
                  [''/in/s_20230405.tif'', [], ''/in2/s_20230405.tif''])))
   \<and> read_file_list example_world ''/lists/blank.txt''
       = Inr [''/in/s_20230405.tif'', [], ''/in2/s_20230405.tif'']
   \<and> [] \<in> set [''/in/s_20230405.tif'', [], ''/in2/s_20230405.tif'']
   \<and> fst (geotiff_to_envi example_world [''/in/s_20230405.tif''] ''out'' ''int16'' date_format)
       = Inr ([''out/s_20230405.img''], [''2023095''])
   \<and> fst (geotiff_to_envi example_world [''/in/s_20230405.tif'', [], ''/in2/s_20230405.tif'']
            ''out'' ''int16'' date_format)
       = Inl (DateFormatNotFound [])"
proof -
  let ?ls = "[''/in/s_20230405.tif'', [], ''/in2/s_20230405.tif'']"
  have lines: "\<forall>line\<in>set ?ls. \<forall>c\<in>set line. \<not> is_linebreak c"
    by (simp add: is_linebreak_def)
  have stored: "fs example_world ''/lists/blank.txt''
       = Some (Text (concat (map (\<lambda>line. line @ [CHR 0x0A]) ?ls)))"
    by (simp add: example_world_def example_fs_def)
  have blank: "[] \<in> set ?ls" by simp
  note inst = blank_lines_abort [where w = example_world and ls = ?ls
      and file_path = "''/lists/blank.txt''" and fl = ?ls and pre = "[''/in/s_20230405.tif'']"
      and post = "[''/in2/s_20230405.tif'']" and out_dir = "''out''" and dtype = "''int16''"]
  from inst lines stored have read: "read_file_list example_world ''/lists/blank.txt'' = Inr ?ls"
    by blast
  from inst example_run_first
  have "fst (geotiff_to_envi example_world ([''/in/s_20230405.tif''] @ [] # [''/in2/s_20230405.tif''])
            ''out'' ''int16'' date_format) = Inl (DateFormatNotFound [])"
    by blast
  then have abort: "fst (geotiff_to_envi example_world ?ls ''out'' ''int16'' date_format)
      = Inl (DateFormatNotFound [])" by simp
  from lines stored read blank example_run_first abort show ?thesis by blast
qed

subsection \<open>The lists during the loop\<close>

text \<open>
  C2, as the code has it: the date token and the destination path of a file are
  appended, in input order, as soon as the date is extracted and before the source is
  opened. When the loop completes, both lists have one entry for every input. When it
  stops at a file whose date extraction fails, neither list has an entry for that file;
  when it stops at a later step of a file (open, driver, create), both lists already
  have its entry.
\<close>

theorem appended_before_open:
  assumes "geotiff_to_envi_loop out_dir dtype fmt fl (vars, w) = (r, vars', w')"
  shows "case r of
           None \<Rightarrow>
             output_files vars' = output_files vars @ map (output_path_of out_dir) fl
             \<and> map Inr (time_vector vars')
                 = map Inr (time_vector vars)
                   @ map (\<lambda>p. extract_date_from_filename (os_path_basename p) fmt) fl
         | Some e \<Rightarrow>
             (\<exists>pre p post. fl = pre @ p # post
                \<and> (let entered = (case extract_date_from_filename (os_path_basename p) fmt of
                                     Inl e' \<Rightarrow> pre | Inr t \<Rightarrow> pre @ [p])
                   in output_files vars' = output_files vars @ map (output_path_of out_dir) entered
                      \<and> map Inr (time_vector vars')
                          = map Inr (time_vector vars)
                            @ map (\<lambda>p. extract_date_from_filename (os_path_basename p) fmt) entered)
                \<and> (case extract_date_from_filename (os_path_basename p) fmt of
                      Inl e' \<Rightarrow> e = e'
                    | Inr t \<Rightarrow> e \<in> {SourceOpenFailure p, DriverUnavailable, KeyError dtype,
                                     DestinationCreateFailure (output_path_of out_dir p)}))"
proof (cases r)
  case None
  with loop_success assms show ?thesis by simp
next
  case (Some e)
  with assms loop_failure obtain pre p post vars1 w1 where
    fl: "fl = pre @ p # post"
    and pre: "geotiff_to_envi_loop out_dir dtype fmt pre (vars, w) = (None, vars1, w1)"
    and it: "geotiff_to_envi_iteration out_dir dtype fmt p (vars1, w1) = (Some e, vars', w')"
    by blast
  note s = loop_success [OF pre]
  have "(let entered = (case extract_date_from_filename (os_path_basename p) fmt of
                          Inl e' \<Rightarrow> pre | Inr t \<Rightarrow> pre @ [p])
         in output_files vars' = output_files vars @ map (output_path_of out_dir) entered
            \<and> map Inr (time_vector vars')
                = map Inr (time_vector vars)
                  @ map (\<lambda>p. extract_date_from_filename (os_path_basename p) fmt) entered)
      \<and> (case extract_date_from_filename (os_path_basename p) fmt of
            Inl e' \<Rightarrow> e = e'
          | Inr t \<Rightarrow> e \<in> {SourceOpenFailure p, DriverUnavailable, KeyError dtype,
                           DestinationCreateFailure (output_path_of out_dir p)})"
  proof (cases "extract_date_from_filename (os_path_basename p) fmt")
    case (Inl e')
    with it have "e = e'" "vars' = vars1"
      by (simp_all add: geotiff_to_envi_iteration_def)
    with Inl s show ?thesis by simp
  next
    case (Inr t)
    with it have "output_files vars' = output_files vars1 @ [output_path_of out_dir p]"
      "time_vector vars' = time_vector vars1 @ [t]"
      "e \<in> {SourceOpenFailure p, DriverUnavailable, KeyError dtype,
             DestinationCreateFailure (output_path_of out_dir p)}"
      by (auto simp: geotiff_to_envi_iteration_def output_path_of_def Let_def
          split: option.splits if_splits)
    with Inr s show ?thesis by simp
  qed
  with fl Some show ?thesis by auto
qed

lemma example_loop_missing:
  "geotiff_to_envi_loop ''out'' ''int16'' date_format
     [''/in/s_20230405.tif'', ''/nowhere/s_20230406.tif''] (no_vars, example_world)
   = (Some (SourceOpenFailure ''/nowhere/s_20230406.tif''),
      \<lparr>output_files = [''out/s_20230405.img'', ''out/s_20230406.img''],
       time_vector = [''2023095'', ''2023096'']\<rparr>,
      example_world
        \<lparr>gdal_calls := [Open ''/in/s_20230405.tif'', GetDriverByName ''ENVI'',
                        Create ''out/s_20230405.img'', Open ''/nowhere/s_20230406.tif''],
         fs := example_fs(''out/s_20230405.img'' \<mapsto> Raster (example_dataset\<lparr>pixel_type := GDT_Int16\<rparr>))\<rparr>)"
  by (simp add: world_eval date_eval path_eval)

text \<open>
  C2 as stated fails: the source of the second file cannot be opened, and at that point
  both lists hold the entry of that file.
\<close>

theorem appended_after_conversion_counterexample:
  "fst (geotiff_to_envi_loop ''out'' ''int16'' date_format
          [''/in/s_20230405.tif'', ''/nowhere/s_20230406.tif''] (no_vars, example_world))
     = Some (SourceOpenFailure ''/nowhere/s_20230406.tif'')
   \<and> fst (snd (geotiff_to_envi_loop ''out'' ''int16'' date_format
          [''/in/s_20230405.tif'', ''/nowhere/s_20230406.tif''] (no_vars, example_world)))
     = \<lparr>output_files = [''out/s_20230405.img'', ''out/s_20230406.img''],
        time_vector = [''2023095'', ''2023096'']\<rparr>"
  unfolding example_loop_missing by simp

theorem appended_before_open_witness:
  "geotiff_to_envi_loop ''out'' ''int16'' date_format
     [''/in/s_20230405.tif'', ''/nowhere/s_20230406.tif''] (no_vars, example_world)
   = (Some (SourceOpenFailure ''/nowhere/s_20230406.tif''),
      \<lparr>output_files = [''out/s_20230405.img'', ''out/s_20230406.img''],
       time_vector = [''2023095'', ''2023096'']\<rparr>,
      snd (snd (geotiff_to_envi_loop ''out'' ''int16'' date_format
        [''/in/s_20230405.tif'', ''/nowhere/s_20230406.tif''] (no_vars, example_world))))
   \<and> (\<exists>pre p post. [''/in/s_20230405.tif'', ''/nowhere/s_20230406.tif''] = pre @ p # post
        \<and> (let entered = (case extract_date_from_filename (os_path_basename p) date_format of
                             Inl e' \<Rightarrow> pre | Inr t \<Rightarrow> pre @ [p])
           in [''out/s_20230405.img'', ''out/s_20230406.img'']
                = map (output_path_of ''out'') entered
              \<and> map Inr [''2023095'', ''2023096'']
                  = map (\<lambda>p. extract_date_from_filename (os_path_basename p) date_format) entered)
        \<and> (case extract_date_from_filename (os_path_basename p) date_format of
              Inl e' \<Rightarrow> SourceOpenFailure ''/nowhere/s_20230406.tif'' = e'
            | Inr t \<Rightarrow> SourceOpenFailure ''/nowhere/s_20230406.tif''
                \<in> {SourceOpenFailure p, DriverUnavailable, KeyError ''int16'',
                   DestinationCreateFailure (output_path_of ''out'' p)}))"
proof -
  have run: "geotiff_to_envi_loop ''out'' ''int16'' date_format
     [''/in/s_20230405.tif'', ''/nowhere/s_20230406.tif''] (no_vars, example_world)
   = (Some (SourceOpenFailure ''/nowhere/s_20230406.tif''),
      \<lparr>output_files = [''out/s_20230405.img'', ''out/s_20230406.img''],
       time_vector = [''2023095'', ''2023096'']\<rparr>,
      snd (snd (geotiff_to_envi_loop ''out'' ''int16'' date_format
        [''/in/s_20230405.tif'', ''/nowhere/s_20230406.tif''] (no_vars, example_world))))"
    unfolding example_loop_missing by simp
  from appended_before_open [OF run] run show ?thesis
    by (simp add: no_vars_def)
qed

subsection \<open>Shared destinations\<close>

lemma loop_prefix_success:
  assumes "geotiff_to_envi_loop out_dir dtype fmt (xs @ ys) st = (None, st'')"
  shows "\<exists>st'. geotiff_to_envi_loop out_dir dtype fmt xs st = (None, st')
           \<and> geotiff_to_envi_loop out_dir dtype fmt ys st' = (None, st'')"
  using assms by (auto simp: loop_append split: prod.splits option.splits)

lemma iteration_keeps_raster:
  assumes "geotiff_to_envi_iteration out_dir dtype fmt p (vars, w) = (r, vars', w')"
    and "fs w q = Some (Raster d)"
  shows "\<exists>d'. fs w' q = Some (Raster d')"
  using iteration_cases [OF assms(1)] assms(2) by (cases r) auto

lemma loop_keeps_raster:
  "geotiff_to_envi_loop out_dir dtype fmt fl (vars, w) = (r, vars', w') \<Longrightarrow>
   fs w q = Some (Raster d) \<Longrightarrow> \<exists>d'. fs w' q = Some (Raster d')"
proof (induction fl arbitrary: vars w d)
  case Nil
  then show ?case by simp
next
  case (Cons p ps)
  obtain r1 vars1 w1 where it:
    "geotiff_to_envi_iteration out_dir dtype fmt p (vars, w) = (r1, vars1, w1)"
    by (cases "geotiff_to_envi_iteration out_dir dtype fmt p (vars, w)") auto
  from iteration_keeps_raster [OF it Cons.prems(2)] obtain d1 where
    d1: "fs w1 q = Some (Raster d1)" by blast
  show ?case
  proof (cases r1)
    case None
    with it Cons.prems(1)
    have "geotiff_to_envi_loop out_dir dtype fmt ps (vars1, w1) = (r, vars', w')" by simp
    from Cons.IH [OF this d1] show ?thesis .
  next
    case (Some e)
    with it Cons.prems(1) have "w' = w1" by simp
    with d1 show ?thesis by simp
  qed
qed

lemma loop_creates:
  "geotiff_to_envi_loop out_dir dtype fmt fl (vars, w) = (None, vars', w') \<Longrightarrow>
   p \<in> set fl \<Longrightarrow> \<exists>d. fs w' (output_path_of out_dir p) = Some (Raster d)"
proof (induction fl arbitrary: vars w)
  case Nil
  then show ?case by simp
next
  case (Cons x xs)
  obtain r1 vars1 w1 where it:
    "geotiff_to_envi_iteration out_dir dtype fmt x (vars, w) = (r1, vars1, w1)"
    by (cases "geotiff_to_envi_iteration out_dir dtype fmt x (vars, w)") auto
  with Cons.prems(1) have r1: "r1 = None"
    and rest: "geotiff_to_envi_loop out_dir dtype fmt xs (vars1, w1) = (None, vars', w')"
    by (auto split: option.splits)
  show ?case
  proof (cases "p = x")
    case True
    from iteration_cases [OF it] r1 obtain d where
      "fs w1 (output_path_of out_dir x) = Some (Raster d)" by auto
    from loop_keeps_raster [OF rest this] True show ?thesis by simp
  next
    case False
    with Cons.prems(2) have "p \<in> set xs" by simp
    from Cons.IH [OF rest this] show ?thesis .
  qed
qed

lemma geotiff_to_envi_world:
  "dtype_map dtype \<noteq> None \<Longrightarrow>
   snd (geotiff_to_envi w fl out_dir dtype fmt)
     = snd (snd (geotiff_to_envi_loop out_dir dtype fmt fl (no_vars, w)))"
  by (auto simp: geotiff_to_envi_def no_vars_def split: prod.splits option.splits)

lemma output_path_of_basename:
  "os_path_basename p = os_path_basename q \<Longrightarrow> output_path_of out_dir p = output_path_of out_dir q"
  by (simp add: output_path_of_def)

text \<open>
  C10: when two inputs at positions \<open>i < j\<close> of a batch have the same base name, their
  destination paths in the returned list are the same; before the conversion at
  position \<open>j\<close> a raster is already at that path, and after it the file there is the
  conversion of the source at position \<open>j\<close>.
\<close>

theorem same_basename_overwrites:
  assumes "geotiff_to_envi w fl out_dir dtype fmt = (Inr (outs, tv), w')"
    and "i < j" and "j < length fl"
    and "os_path_basename (fl ! i) = os_path_basename (fl ! j)"
  shows "outs ! i = outs ! j
     \<and> (\<exists>earlier. fs (snd (geotiff_to_envi w (take j fl) out_dir dtype fmt)) (outs ! i)
            = Some (Raster earlier))
     \<and> (\<exists>src dt. gdal_Open (snd (geotiff_to_envi w (take j fl) out_dir dtype fmt)) (fl ! j)
            = Some src
          \<and> dtype_map dtype = Some dt
          \<and> fs (snd (geotiff_to_envi w (take (Suc j) fl) out_dir dtype fmt)) (outs ! j)
              = Some (Raster (src\<lparr>pixel_type := dt\<rparr>)))"
proof -
  from assms(1) have dt: "dtype_map dtype \<noteq> None"
    by (auto simp: geotiff_to_envi_def split: if_splits)
  from geotiff_to_envi_success(1) [OF assms(1)] assms(2,3)
  have oi: "outs ! i = output_path_of out_dir (fl ! i)"
    and oj: "outs ! j = output_path_of out_dir (fl ! j)" by simp_all
  with output_path_of_basename [OF assms(4)] have same: "outs ! i = outs ! j" by simp
  have split: "fl = take j fl @ (fl ! j # drop (Suc j) fl)"
    using assms(3) by (simp add: id_take_nth_drop [symmetric])
  note l = geotiff_to_envi_success(3) [OF assms(1)]
  from l split have "geotiff_to_envi_loop out_dir dtype fmt
      (take j fl @ (fl ! j # drop (Suc j) fl)) (no_vars, w)
      = (None, \<lparr>output_files = outs, time_vector = tv\<rparr>, w')" by simp
  from loop_prefix_success [OF this] obtain vars1 w1 where
    pre: "geotiff_to_envi_loop out_dir dtype fmt (take j fl) (no_vars, w) = (None, vars1, w1)"
    and post: "geotiff_to_envi_loop out_dir dtype fmt (fl ! j # drop (Suc j) fl) (vars1, w1)
      = (None, \<lparr>output_files = outs, time_vector = tv\<rparr>, w')"
    by auto
  obtain r2 vars2 w2 where it:
    "geotiff_to_envi_iteration out_dir dtype fmt (fl ! j) (vars1, w1) = (r2, vars2, w2)"
    by (cases "geotiff_to_envi_iteration out_dir dtype fmt (fl ! j) (vars1, w1)") auto
  with post have r2: "r2 = None" by (auto split: option.splits)
  have w1: "snd (geotiff_to_envi w (take j fl) out_dir dtype fmt) = w1"
    using pre by (simp add: geotiff_to_envi_world [OF dt])
  have "take (Suc j) fl = take j fl @ [fl ! j]"
    using assms(3) by (simp add: take_Suc_conv_app_nth)
  then have "geotiff_to_envi_loop out_dir dtype fmt (take (Suc j) fl) (no_vars, w)
      = (None, vars2, w2)"
    using pre it r2 by (simp add: loop_append)
  then have w2: "snd (geotiff_to_envi w (take (Suc j) fl) out_dir dtype fmt) = w2"
    by (simp add: geotiff_to_envi_world [OF dt])
  have "fl ! i \<in> set (take j fl)"
    using assms(2,3) by (auto simp: in_set_conv_nth intro!: exI [of _ i])
  from loop_creates [OF pre this] oi w1
  have earlier: "\<exists>earlier. fs (snd (geotiff_to_envi w (take j fl) out_dir dtype fmt)) (outs ! i)
            = Some (Raster earlier)" by simp
  from iteration_cases [OF it] r2 obtain src d where
    "gdal_Open w1 (fl ! j) = Some src" "dtype_map dtype = Some d"
    "fs w2 (output_path_of out_dir (fl ! j)) = Some (Raster (src\<lparr>pixel_type := d\<rparr>))"
    by auto
  with w1 w2 oj
  have later: "\<exists>src dt. gdal_Open (snd (geotiff_to_envi w (take j fl) out_dir dtype fmt)) (fl ! j)
            = Some src
          \<and> dtype_map dtype = Some dt
          \<and> fs (snd (geotiff_to_envi w (take (Suc j) fl) out_dir dtype fmt)) (outs ! j)
              = Some (Raster (src\<lparr>pixel_type := dt\<rparr>))" by simp
  from same earlier later show ?thesis by blast
qed

lemma example_run_prefix:
  "snd (geotiff_to_envi example_world [''/in/s_20230405.tif''] ''out'' ''int16'' date_format)
   = example_world
       \<lparr>gdal_calls := [Open ''/in/s_20230405.tif'', GetDriverByName ''ENVI'',
                       Create ''out/s_20230405.img''],
        fs := example_fs(''out/s_20230405.img'' \<mapsto> Raster (example_dataset\<lparr>pixel_type := GDT_Int16\<rparr>))\<rparr>"
  by (simp add: world_eval date_eval path_eval)

theorem same_basename_overwrites_witness:
  "geotiff_to_envi example_world [''/in/s_20230405.tif'', ''/in2/s_20230405.tif''] ''out''
     ''int16'' date_format
   = (Inr ([''out/s_20230405.img'', ''out/s_20230405.img''], [''2023095'', ''2023095'']),
      snd (geotiff_to_envi example_world [''/in/s_20230405.tif'', ''/in2/s_20230405.tif'']
             ''out'' ''int16'' date_format))
   \<and> (0::nat) < 1 \<and> (1::nat) < length [''/in/s_20230405.tif'', ''/in2/s_20230405.tif'']
   \<and> os_path_basename ([''/in/s_20230405.tif'', ''/in2/s_20230405.tif''] ! 0)
       = os_path_basename ([''/in/s_20230405.tif'', ''/in2/s_20230405.tif''] ! 1)
   \<and> [''out/s_20230405.img'', ''out/s_20230405.img''] ! 0
       = [''out/s_20230405.img'', ''out/s_20230405.img''] ! (1::nat)
   \<and> fs (snd (geotiff_to_envi example_world [''/in/s_20230405.tif''] ''out'' ''int16''
              date_format)) ''out/s_20230405.img''
       = Some (Raster (example_dataset\<lparr>pixel_type := GDT_Int16\<rparr>))
   \<and> fs (snd (geotiff_to_envi example_world [''/in/s_20230405.tif'', ''/in2/s_20230405.tif'']
              ''out'' ''int16'' date_format)) ''out/s_20230405.img''
       = Some (Raster (example_dataset'\<lparr>pixel_type := GDT_Int16\<rparr>))"
proof -
  let ?fl = "[''/in/s_20230405.tif'', ''/in2/s_20230405.tif'']"
  have run: "geotiff_to_envi example_world ?fl ''out'' ''int16'' date_format
   = (Inr ([''out/s_20230405.img'', ''out/s_20230405.img''], [''2023095'', ''2023095'']),
      snd (geotiff_to_envi example_world ?fl ''out'' ''int16'' date_format))"
    by (simp add: example_run)
  have ij: "(0::nat) < 1" and j: "(1::nat) < length ?fl" by simp_all
  have b: "os_path_basename (?fl ! 0) = os_path_basename (?fl ! 1)"
    by (simp add: path_eval)
  have t1: "take 1 ?fl = [''/in/s_20230405.tif'']" and t2: "take (Suc 1) ?fl = ?fl" by simp_all
  from same_basename_overwrites [OF run ij j b] obtain earlier src dt where
    same: "[''out/s_20230405.img'', ''out/s_20230405.img''] ! 0
         = [''out/s_20230405.img'', ''out/s_20230405.img''] ! (1::nat)"
    and e: "fs (snd (geotiff_to_envi example_world (take 1 ?fl) ''out'' ''int16'' date_format))
              ([''out/s_20230405.img'', ''out/s_20230405.img''] ! 0) = Some (Raster earlier)"
    and s: "gdal_Open (snd (geotiff_to_envi example_world (take 1 ?fl) ''out'' ''int16''
              date_format)) (?fl ! 1) = Some src"
    and d: "dtype_map ''int16'' = Some dt"
    and f: "fs (snd (geotiff_to_envi example_world (take (Suc 1) ?fl) ''out'' ''int16''
              date_format)) ([''out/s_20230405.img'', ''out/s_20230405.img''] ! 1)
            = Some (Raster (src\<lparr>pixel_type := dt\<rparr>))"
    by blast
  from d have dt: "dt = GDT_Int16" by (simp add: dtype_map_def)
  from s have src: "src = example_dataset'"
    unfolding t1 example_run_prefix
    by (simp add: gdal_Open_def example_world_def example_fs_def)
  from f have later: "fs (snd (geotiff_to_envi example_world ?fl ''out'' ''int16'' date_format))
      ''out/s_20230405.img'' = Some (Raster (example_dataset'\<lparr>pixel_type := GDT_Int16\<rparr>))"
    unfolding t2 dt src by simp
  have first: "fs (snd (geotiff_to_envi example_world [''/in/s_20230405.tif''] ''out'' ''int16''
              date_format)) ''out/s_20230405.img''
       = Some (Raster (example_dataset\<lparr>pixel_type := GDT_Int16\<rparr>))"
    unfolding example_run_prefix by (simp add: example_world_def)
  from run ij j b same first later show ?thesis by blast
qed


subsection \<open>The manifests\<close>

lemma geotiff_to_envi_env:
  assumes "geotiff_to_envi w fl out_dir dtype fmt = (r, w')"
  shows "stdout w' = stdout w \<and> writable w' = writable w"
proof (cases "dtype_map dtype = None")
  case True
  with assms show ?thesis by (simp add: geotiff_to_envi_def)
next
  case False
  obtain r1 vars1 w1 where
    l: "geotiff_to_envi_loop out_dir dtype fmt fl (no_vars, w) = (r1, vars1, w1)"
    by (cases "geotiff_to_envi_loop out_dir dtype fmt fl (no_vars, w)") auto
  with False assms have "w' = w1"
    by (auto simp: geotiff_to_envi_def no_vars_def split: option.splits)
  with loop_env [OF l] show ?thesis by simp
qed

lemma manifest_not_output:
  "b \<noteq> [] \<Longrightarrow> last b \<noteq> CHR ''g'' \<Longrightarrow> os_path_join out_dir b \<notin> output_path_of out_dir ` set fl"
proof
  assume b: "b \<noteq> []" "last b \<noteq> CHR ''g''"
  assume "os_path_join out_dir b \<in> output_path_of out_dir ` set fl"
  then obtain p where "os_path_join out_dir b = output_path_of out_dir p" by auto
  then have "last (os_path_join out_dir b) = CHR ''g''" by (simp add: output_path_of_last)
  with b show False by (simp add: join_last)
qed

lemma conversion_keeps_manifest:
  assumes "geotiff_to_envi w fl out_dir dtype fmt = (r, w')"
    and "b = ''ENVI_file_list.txt'' \<or> b = ''time_vector.txt''"
  shows "fs w' (os_path_join out_dir b) = fs w (os_path_join out_dir b)"
proof -
  from assms(2) have "b \<noteq> []" "last b \<noteq> CHR ''g''" by auto
  from geotiff_to_envi_fs_frame [OF assms(1) manifest_not_output [OF this]]
  show ?thesis .
qed

text \<open>
  C1: when the conversion fails, \<^verbatim>\<open>main\<close> returns without raising, having printed
  the diagnostic, and the files at the paths of \<^verbatim>\<open>ENVI_file_list.txt\<close> and
  \<^verbatim>\<open>time_vector.txt\<close> are as they were before; and whenever \<^verbatim>\<open>main\<close> changes one
  of the two, the list file was read and the loop over every input completed.
\<close>

theorem failure_writes_no_manifest:
  "(output_dtype a \<in> {''uint8'', ''int16'', ''float32''}
      \<and> read_file_list w (file_list_path a) = Inr fl
      \<and> geotiff_to_envi w fl (output_folder a) (output_dtype a) date_format = (Inl e, w1)
     \<longrightarrow> main w a = (Returned, print (ConversionError e) w1)
        \<and> stdout (snd (main w a)) = stdout w @ [ConversionError e]
        \<and> fs (snd (main w a)) (os_path_join (output_folder a) ''ENVI_file_list.txt'')
            = fs w (os_path_join (output_folder a) ''ENVI_file_list.txt'')
        \<and> fs (snd (main w a)) (os_path_join (output_folder a) ''time_vector.txt'')
            = fs w (os_path_join (output_folder a) ''time_vector.txt''))
   \<and> (fs (snd (main w a)) (os_path_join (output_folder a) ''ENVI_file_list.txt'')
          \<noteq> fs w (os_path_join (output_folder a) ''ENVI_file_list.txt'')
        \<or> fs (snd (main w a)) (os_path_join (output_folder a) ''time_vector.txt'')
          \<noteq> fs w (os_path_join (output_folder a) ''time_vector.txt'')
       \<longrightarrow> (\<exists>file_list outs tv w2. read_file_list w (file_list_path a) = Inr file_list
             \<and> geotiff_to_envi w file_list (output_folder a) (output_dtype a) date_format
                 = (Inr (outs, tv), w2)))"
proof (intro conjI impI)
  assume h: "output_dtype a \<in> {''uint8'', ''int16'', ''float32''}
      \<and> read_file_list w (file_list_path a) = Inr fl
      \<and> geotiff_to_envi w fl (output_folder a) (output_dtype a) date_format = (Inl e, w1)"
  then have m: "main w a = (Returned, print (ConversionError e) w1)"
    by (auto simp: main_def)
  from h have g: "geotiff_to_envi w fl (output_folder a) (output_dtype a) date_format = (Inl e, w1)"
    by simp
  show "main w a = (Returned, print (ConversionError e) w1)" by (rule m)
  show "stdout (snd (main w a)) = stdout w @ [ConversionError e]"
    using geotiff_to_envi_env [OF g] by (simp add: m print_def)
  show "fs (snd (main w a)) (os_path_join (output_folder a) ''ENVI_file_list.txt'')
            = fs w (os_path_join (output_folder a) ''ENVI_file_list.txt'')"
    using conversion_keeps_manifest [OF g, of "''ENVI_file_list.txt''"] by (simp add: m print_def)
  show "fs (snd (main w a)) (os_path_join (output_folder a) ''time_vector.txt'')
            = fs w (os_path_join (output_folder a) ''time_vector.txt'')"
    using conversion_keeps_manifest [OF g, of "''time_vector.txt''"] by (simp add: m print_def)
next
  assume changed: "fs (snd (main w a)) (os_path_join (output_folder a) ''ENVI_file_list.txt'')
          \<noteq> fs w (os_path_join (output_folder a) ''ENVI_file_list.txt'')
        \<or> fs (snd (main w a)) (os_path_join (output_folder a) ''time_vector.txt'')
          \<noteq> fs w (os_path_join (output_folder a) ''time_vector.txt'')"
  show "\<exists>file_list outs tv w2. read_file_list w (file_list_path a) = Inr file_list
             \<and> geotiff_to_envi w file_list (output_folder a) (output_dtype a) date_format
                 = (Inr (outs, tv), w2)"
  proof (cases "output_dtype a \<in> {''uint8'', ''int16'', ''float32''}")
    case False
    then have "snd (main w a) = w" by (simp add: main_def)
    with changed show ?thesis by simp
  next
    case True
    show ?thesis
    proof (cases "read_file_list w (file_list_path a)")
      case (Inl x)
      with True have "fs (snd (main w a)) = fs w"
        by (cases x) (simp_all add: main_def print_def)
      with changed show ?thesis by simp
    next
      case (Inr file_list)
      obtain r w2 where g: "geotiff_to_envi w file_list (output_folder a) (output_dtype a)
          date_format = (r, w2)"
        by (cases "geotiff_to_envi w file_list (output_folder a) (output_dtype a) date_format")
      show ?thesis
      proof (cases r)
        case (Inl x)
        with True Inr g have m: "main w a = (Returned, print (ConversionError x) w2)"
          by (auto simp: main_def)
        from conversion_keeps_manifest [OF g, of "''ENVI_file_list.txt''"]
          conversion_keeps_manifest [OF g, of "''time_vector.txt''"] changed
        show ?thesis by (simp add: m print_def)
      next
        case (Inr res)
        obtain outs tv where "res = (outs, tv)" by (cases res)
        with Inr g \<open>read_file_list w (file_list_path a) = Inr file_list\<close>
        show ?thesis by blast
      qed
    qed
  qed
qed


lemma example_conversion_missing:
  "geotiff_to_envi example_world [''/in/s_20230405.tif'', ''/nowhere/s_20230406.tif''] ''out''
     ''int16'' date_format
   = (Inl (SourceOpenFailure ''/nowhere/s_20230406.tif''),
      example_world
        \<lparr>gdal_calls := [Open ''/in/s_20230405.tif'', GetDriverByName ''ENVI'',
                        Create ''out/s_20230405.img'', Open ''/nowhere/s_20230406.tif''],
         fs := example_fs(''out/s_20230405.img'' \<mapsto> Raster (example_dataset\<lparr>pixel_type := GDT_Int16\<rparr>))\<rparr>)"
  unfolding geotiff_to_envi_def no_vars_def [symmetric] example_loop_missing
  by (simp add: dtype_map_def)

theorem failure_writes_no_manifest_witness:
  "output_dtype \<lparr>file_list_path = ''/lists/missing.txt'', output_folder = ''out'',
                 output_dtype = ''int16''\<rparr> \<in> {''uint8'', ''int16'', ''float32''}
   \<and> read_file_list example_world ''/lists/missing.txt''
       = Inr [''/in/s_20230405.tif'', ''/nowhere/s_20230406.tif'']
   \<and> fst (geotiff_to_envi example_world [''/in/s_20230405.tif'', ''/nowhere/s_20230406.tif'']
            ''out'' ''int16'' date_format)
       = Inl (SourceOpenFailure ''/nowhere/s_20230406.tif'')
   \<and> fst (main example_world \<lparr>file_list_path = ''/lists/missing.txt'', output_folder = ''out'',
                               output_dtype = ''int16''\<rparr>) = Returned
   \<and> stdout (snd (main example_world \<lparr>file_list_path = ''/lists/missing.txt'',
                 output_folder = ''out'', output_dtype = ''int16''\<rparr>))
       = [ConversionError (SourceOpenFailure ''/nowhere/s_20230406.tif'')]
   \<and> fs (snd (main example_world \<lparr>file_list_path = ''/lists/missing.txt'',
             output_folder = ''out'', output_dtype = ''int16''\<rparr>)) ''out/ENVI_file_list.txt''
       = None
   \<and> fs (snd (main example_world \<lparr>file_list_path = ''/lists/missing.txt'',
             output_folder = ''out'', output_dtype = ''int16''\<rparr>)) ''out/time_vector.txt''
       = None
   \<and> fs (snd (main example_world \<lparr>file_list_path = ''/lists/missing.txt'',
             output_folder = ''out'', output_dtype = ''int16''\<rparr>)) ''out/s_20230405.img''
       = Some (Raster (example_dataset\<lparr>pixel_type := GDT_Int16\<rparr>))"
proof -
  let ?a = "\<lparr>file_list_path = ''/lists/missing.txt'', output_folder = ''out'',
             output_dtype = ''int16''\<rparr>"
  let ?fl = "[''/in/s_20230405.tif'', ''/nowhere/s_20230406.tif'']"
  let ?w1 = "example_world
        \<lparr>gdal_calls := [Open ''/in/s_20230405.tif'', GetDriverByName ''ENVI'',
                        Create ''out/s_20230405.img'', Open ''/nowhere/s_20230406.tif''],
         fs := example_fs(''out/s_20230405.img'' \<mapsto> Raster (example_dataset\<lparr>pixel_type := GDT_Int16\<rparr>))\<rparr>"
  have d: "output_dtype ?a \<in> {''uint8'', ''int16'', ''float32''}" by simp
  have r: "read_file_list example_world (file_list_path ?a) = Inr ?fl"
    by (simp add: example_read_missing)
  have g: "geotiff_to_envi example_world ?fl (output_folder ?a) (output_dtype ?a) date_format
      = (Inl (SourceOpenFailure ''/nowhere/s_20230406.tif''), ?w1)"
    by (simp add: example_conversion_missing)
  from failure_writes_no_manifest [where a = ?a and w = example_world and fl = ?fl
      and e = "SourceOpenFailure ''/nowhere/s_20230406.tif''" and ?w1.0 = ?w1] d r g
  have m: "main example_world ?a
        = (Returned, print (ConversionError (SourceOpenFailure ''/nowhere/s_20230406.tif'')) ?w1)"
    and out: "stdout (snd (main example_world ?a))
        = stdout example_world @ [ConversionError (SourceOpenFailure ''/nowhere/s_20230406.tif'')]"
    and m1: "fs (snd (main example_world ?a)) (os_path_join (output_folder ?a) ''ENVI_file_list.txt'')
        = fs example_world (os_path_join (output_folder ?a) ''ENVI_file_list.txt'')"
    and m2: "fs (snd (main example_world ?a)) (os_path_join (output_folder ?a) ''time_vector.txt'')
        = fs example_world (os_path_join (output_folder ?a) ''time_vector.txt'')"
    by blast+
  from m have ret: "fst (main example_world ?a) = Returned" by simp
  from out have out': "stdout (snd (main example_world ?a))
        = [ConversionError (SourceOpenFailure ''/nowhere/s_20230406.tif'')]"
    by (simp add: example_world_def)
  from m1 have m1': "fs (snd (main example_world ?a)) ''out/ENVI_file_list.txt'' = None"
    by (simp add: os_path_join_def example_world_def example_fs_def)
  from m2 have m2': "fs (snd (main example_world ?a)) ''out/time_vector.txt'' = None"
    by (simp add: os_path_join_def example_world_def example_fs_def)
  from m have img: "fs (snd (main example_world ?a)) ''out/s_20230405.img''
       = Some (Raster (example_dataset\<lparr>pixel_type := GDT_Int16\<rparr>))"
    by (simp add: print_def)
  from g have g': "fst (geotiff_to_envi example_world ?fl ''out'' ''int16'' date_format)
       = Inl (SourceOpenFailure ''/nowhere/s_20230406.tif'')" by simp
  from d r g' ret out' m1' m2' img show ?thesis by simp
qed

text \<open>
  For comparison, the run of \<^verbatim>\<open>main\<close> on the list of the two rasters: both manifests
  are written, with one line for each input.
\<close>

lemma example_main_ok:
  "fst (main example_world \<lparr>file_list_path = ''/lists/ok.txt'', output_folder = ''out'',
                            output_dtype = ''int16''\<rparr>) = Returned
   \<and> fs (snd (main example_world \<lparr>file_list_path = ''/lists/ok.txt'', output_folder = ''out'',
                                  output_dtype = ''int16''\<rparr>)) ''out/ENVI_file_list.txt''
       = Some (Text (''out/s_20230405.img'' @ [CHR 0x0A] @ ''out/s_20230405.img'' @ [CHR 0x0A]))
   \<and> fs (snd (main example_world \<lparr>file_list_path = ''/lists/ok.txt'', output_folder = ''out'',
                                  output_dtype = ''int16''\<rparr>)) ''out/time_vector.txt''
       = Some (Text (''2023095'' @ [CHR 0x0A] @ ''2023095'' @ [CHR 0x0A]))"
  by (simp add: main_def example_read_ok example_run)
    (simp add: save_list_to_file_def os_path_join_def print_def example_world_def Let_def)

end
